theory Spec2Isabelle
  imports Main
begin

section \<open>Python values used by \<open>extract_pdf.py\<close>\<close>

text \<open>
  A Python \<open>str\<close> is a sequence of Unicode code points; it is modelled as the list of
  its code points, so that \<open>str.strip\<close> and \<open>str.isspace\<close> see what Python sees
  (the ideographic space U+3000 is one whitespace character, not three bytes).
  ASCII literals of the source are written through \<open>ascii\<close>; the Chinese literals are
  given by their code points.
\<close>

type_synonym pystr = "nat list"

definition ascii :: "string \<Rightarrow> pystr" where
  "ascii s = map (of_char :: char \<Rightarrow> nat) s"

text \<open>\<open>str.isspace\<close> on one character: the whitespace table of CPython 3.\<close>

definition py_isspace :: "nat \<Rightarrow> bool" where
  "py_isspace c =
     ((0x09 \<le> c \<and> c \<le> 0x0D) \<or> (0x1C \<le> c \<and> c \<le> 0x20) \<or> c = 0x85 \<or> c = 0xA0
      \<or> c = 0x1680 \<or> (0x2000 \<le> c \<and> c \<le> 0x200A) \<or> c = 0x2028 \<or> c = 0x2029
      \<or> c = 0x202F \<or> c = 0x205F \<or> c = 0x3000)"

text \<open>\<open>s.strip()\<close>: leading and trailing whitespace removed.\<close>

definition py_strip :: "pystr \<Rightarrow> pystr" where
  "py_strip s = rev (dropWhile py_isspace (rev (dropWhile py_isspace s)))"

text \<open>\<open>str(n)\<close> for a non-negative integer, as the f-strings format a page number.\<close>

fun py_str :: "nat \<Rightarrow> pystr" where
  "py_str n = (if n < 10 then [48 + n] else py_str (n div 10) @ [48 + n mod 10])"

declare py_str.simps [simp del]

subsection \<open>Exceptions\<close>

text \<open>
  What the program can meet as a raised exception:
  \<^item> \<open>KeyError k\<close>: a dictionary subscript on the absent key \<open>k\<close>;
  \<^item> \<open>UnicodeEncodeError s\<close>: the text \<open>s\<close> could not be encoded for the console;
  \<^item> \<open>OSError r\<close>: an error of Python's own \<open>open\<close> or \<open>write\<close> (an \<open>OSError\<close>, or a
    \<open>ValueError\<close> or \<open>UnicodeEncodeError\<close> alike), with its reason \<open>r\<close>;
  \<^item> \<open>Error m\<close>: any other instance of \<open>Exception\<close>, as a library or an import raises it,
    for which \<open>str(e)\<close> returns the message \<open>m\<close>;
  \<^item> \<open>StrRaises e\<close>: an instance of \<open>Exception\<close> whose \<open>__str__\<close> raises \<open>e\<close>;
  \<^item> \<open>Signal m\<close>: a \<open>BaseException\<close> that is no instance of \<open>Exception\<close>
    (\<open>KeyboardInterrupt\<close>, \<open>SystemExit\<close>, \<open>GeneratorExit\<close>), with message \<open>m\<close>.
\<close>

datatype py_exception =
    KeyError pystr
  | UnicodeEncodeError pystr
  | OSError pystr
  | Error pystr
  | StrRaises py_exception
  | Signal pystr

text \<open>\<open>isinstance(e, Exception)\<close>: what a clause \<open>except Exception\<close> catches.\<close>

fun is_Exception :: "py_exception \<Rightarrow> bool" where
  "is_Exception (Signal m) = False"
| "is_Exception e = True"

subsection \<open>The console\<close>

text \<open>
  The console is a UTF-8 stream with strict error handling: \<open>print(s)\<close> raises
  \<open>UnicodeEncodeError\<close> exactly when \<open>s\<close> holds a lone surrogate (U+D800 to U+DFFF),
  which UTF-8 cannot encode. A \<open>print\<close> that returns changes nothing the results of
  the program depend on, so the printed lines are not kept.
\<close>

definition is_surrogate :: "nat \<Rightarrow> bool" where
  "is_surrogate c = (0xD800 \<le> c \<and> c \<le> 0xDFFF)"

definition encodable :: "pystr \<Rightarrow> bool" where
  "encodable s = (filter is_surrogate s = [])"

text \<open>\<open>print(s)\<close>: \<open>None\<close> when it returns, \<open>Some e\<close> when it raises \<open>e\<close>.\<close>

definition py_print :: "pystr \<Rightarrow> py_exception option" where
  "py_print s = (if encodable s then None else Some (UnicodeEncodeError s))"

text \<open>
  \<open>print(f"{prefix}{e}")\<close>, the diagnostic of the handlers. Formatting calls
  \<open>str(e)\<close>: for \<open>Error m\<close> the message is printed as it is; for \<open>StrRaises e'\<close> the
  formatting raises \<open>e'\<close> before anything is printed. The message of Python's own
  errors quotes keys, file names and characters through \<open>repr\<close>, which escapes lone
  surrogates, so it adds nothing that cannot be encoded.
\<close>

fun print_error :: "pystr \<Rightarrow> py_exception \<Rightarrow> py_exception option" where
  "print_error prefix (Error m) = py_print (prefix @ m)"
| "print_error prefix (Signal m) = py_print (prefix @ m)"
| "print_error prefix (StrRaises e') = Some e'"
| "print_error prefix (KeyError k) = py_print prefix"
| "print_error prefix (UnicodeEncodeError s) = py_print prefix"
| "print_error prefix (OSError r) = py_print prefix"

text \<open>
  \<open>except Exception as e: print(f"{prefix}{e}")\<close>, for an exception raised in the
  \<open>try\<close>: \<open>None\<close> when the exception is caught and the diagnostic is printed,
  \<open>Some e'\<close> when \<open>e'\<close> leaves the statement: the exception itself when the clause
  does not catch it, or what the print of the handler raises.
\<close>

definition except_Exception :: "pystr \<Rightarrow> py_exception \<Rightarrow> py_exception option" where
  "except_Exception prefix e = (if is_Exception e then print_error prefix e else Some e)"

subsection \<open>Dictionaries\<close>

text \<open>
  A \<open>dict\<close> keeps its keys in insertion order and \<open>items()\<close> iterates in that order:
  an association list with distinct keys. \<open>d[k] = v\<close> replaces the value of a present
  key in place and appends a new key; \<open>d[k]\<close> raises \<open>KeyError\<close> on an absent key.
\<close>

type_synonym pydict = "(pystr \<times> pystr) list"

fun dict_set :: "pydict \<Rightarrow> pystr \<Rightarrow> pystr \<Rightarrow> pydict" where
  "dict_set [] k v = [(k, v)]"
| "dict_set ((k', v') # d) k v = (if k' = k then (k, v) # d else (k', v') # dict_set d k v)"

definition dict_in :: "pystr \<Rightarrow> pydict \<Rightarrow> bool" where
  "dict_in k d = (map_of d k \<noteq> None)"

definition dict_get :: "pydict \<Rightarrow> pystr \<Rightarrow> py_exception + pystr" where
  "dict_get d k = (case map_of d k of None \<Rightarrow> Inl (KeyError k) | Some v \<Rightarrow> Inr v)"

section \<open>The world outside the program\<close>

text \<open>
  What one page does when its text is asked for (\<open>page.extract_text()\<close>,
  \<open>doc[page_num].get_text()\<close>): it raises, or it returns a string.
\<close>

type_synonym page = "py_exception + pystr"

text \<open>
  A document opened by PyMuPDF: its pages, and what \<open>doc.close()\<close> does
  (\<open>None\<close>: it returns; \<open>Some e\<close>: it raises \<open>e\<close>).
\<close>

record fitz_doc =
  doc_pages :: "page list"
  doc_close :: "py_exception option"

text \<open>
  What \<open>open(output_path, 'w', encoding='utf-8')\<close> followed by \<open>f.write\<close> does:
  the open raises, for the given reason, and the file system is untouched; the open
  succeeds and the write raises, for the given reason, leaving the file with some
  content; or the text is written. The errors are Python's own (\<open>OSError\<close> above).
\<close>

datatype write_outcome = OpenRaises pystr | WriteRaises pystr pystr | Written

text \<open>
  The environment of a run, read but never changed by the program:
  \<^item> \<open>path_exists\<close> is \<open>os.path.exists\<close>;
  \<^item> \<open>pypdf2_pages\<close> is everything of PyPDF2 before the page count is printed (the
    import, opening the file, \<open>PdfReader\<close>, \<open>reader.pages\<close> and its length): it raises or
    gives the pages;
  \<^item> \<open>pdfminer_extract_text\<close> is the import of pdfminer and its \<open>extract_text\<close>;
  \<^item> \<open>fitz_open\<close> is the import of fitz, \<open>fitz.open\<close> and the length of the document;
  \<^item> \<open>now\<close> is the text of \<open>datetime.now()\<close>;
  \<^item> \<open>write_text\<close> is the outcome of writing a text to a path.
\<close>

record env =
  path_exists :: "pystr \<Rightarrow> bool"
  pypdf2_pages :: "pystr \<Rightarrow> py_exception + page list"
  pdfminer_extract_text :: "pystr \<Rightarrow> py_exception + pystr"
  fitz_open :: "pystr \<Rightarrow> py_exception + fitz_doc"
  now :: pystr
  write_text :: "pystr \<Rightarrow> pystr \<Rightarrow> write_outcome"

text \<open>
  The state a run changes: the text files on disk, and the log of extractor
  invocations (each extractor records its own entry with the path it was given,
  oldest first), which is what a call-count assertion on the extractors observes.
\<close>

datatype backend = B_PyPDF2 | B_PDFMiner | B_PyMuPDF

record world =
  disk :: "pystr \<rightharpoonup> pystr"
  invoked :: "(backend \<times> pystr) list"

definition enter :: "backend \<Rightarrow> pystr \<Rightarrow> world \<Rightarrow> world" where
  "enter b pdf_path w = w\<lparr>invoked := invoked w @ [(b, pdf_path)]\<rparr>"

section \<open>The three extractors\<close>

text \<open>The three backend names, as the source spells them in its keys and messages.\<close>

definition PyPDF2 :: pystr where
  "PyPDF2 = ascii ''PyPDF2''"

definition PDFMiner :: pystr where
  "PDFMiner = ascii ''PDFMiner''"

definition PyMuPDF :: pystr where
  "PyMuPDF = ascii ''PyMuPDF''"

text \<open>
  The text of the page count, lines 21 and 55 (\<open>f"PyPDF2: \<dots> {len(reader.pages)} \<dots>"\<close>),
  and the literal before \<open>{e}\<close> in the diagnostics of lines 31, 44 and 67.
\<close>

definition count_line :: "pystr \<Rightarrow> nat \<Rightarrow> pystr" where
  "count_line name n =
     name @ ascii '': '' @ [0x68C0, 0x6D4B, 0x5230] @ ascii '' '' @ py_str n @ ascii '' ''
       @ [0x9875]"

definition failed_prefix :: "pystr \<Rightarrow> pystr" where
  "failed_prefix name = name @ ascii '' '' @ [0x63D0, 0x53D6, 0x5931, 0x8D25] @ ascii '': ''"

text \<open>
  A function body \<open>try: \<dots> return r except Exception as e: print(\<dots>); return None\<close>,
  given what the \<open>try\<close> does: \<open>Inr r\<close> when the function returns \<open>r\<close>, \<open>Inl e\<close> when
  \<open>e\<close> escapes the function.
\<close>

definition try_except :: "pystr \<Rightarrow> py_exception + pystr option \<Rightarrow> py_exception + pystr option" where
  "try_except name body =
     (case body of
        Inr r \<Rightarrow> Inr r
      | Inl e \<Rightarrow>
          (case except_Exception (failed_prefix name) e of
             Some e' \<Rightarrow> Inl e'
           | None \<Rightarrow> Inr None))"

subsection \<open>\<open>extract_with_pypdf2\<close>\<close>

text \<open>The page marker \<open>f"\n=== \<dots> {page_num} \<dots> (PyPDF2) ===\n"\<close> of line 26.\<close>

definition pypdf2_marker :: "nat \<Rightarrow> pystr" where
  "pypdf2_marker page_num =
     ascii ''\<newline>=== '' @ [0x7B2C] @ ascii '' '' @ py_str page_num @ ascii '' '' @ [0x9875]
       @ ascii '' (PyPDF2) ===\<newline>''"

text \<open>
  The loop \<open>for page_num, page in enumerate(reader.pages, 1)\<close>, lines 23 to 27, with
  the accumulated \<open>text\<close>; a page that raises ends the loop with the exception.
\<close>

fun pypdf2_loop :: "nat \<Rightarrow> page list \<Rightarrow> pystr \<Rightarrow> py_exception + pystr" where
  "pypdf2_loop page_num [] text = Inr text"
| "pypdf2_loop page_num (page # pages) text =
     (case page of
        Inl e \<Rightarrow> Inl e
      | Inr page_text \<Rightarrow>
          if py_strip page_text \<noteq> []
          then pypdf2_loop (Suc page_num) pages
                 (text @ pypdf2_marker page_num @ page_text @ ascii ''\<newline>'')
          else pypdf2_loop (Suc page_num) pages text)"

text \<open>The \<open>try\<close>, lines 15 to 29: set-up, the print of the page count, the loop, the return.\<close>

definition pypdf2_body :: "env \<Rightarrow> pystr \<Rightarrow> py_exception + pystr option" where
  "pypdf2_body env pdf_path =
     (case pypdf2_pages env pdf_path of
        Inl e \<Rightarrow> Inl e
      | Inr pages \<Rightarrow>
          (case py_print (count_line PyPDF2 (length pages)) of
             Some e \<Rightarrow> Inl e
           | None \<Rightarrow>
               (case pypdf2_loop 1 pages [] of
                  Inl e \<Rightarrow> Inl e
                | Inr text \<Rightarrow> Inr (Some text))))"

text \<open>The function, lines 12 to 32.\<close>

definition extract_with_pypdf2 ::
  "env \<Rightarrow> pystr \<Rightarrow> world \<Rightarrow> (py_exception + pystr option) \<times> world" where
  "extract_with_pypdf2 env pdf_path w =
     (try_except PyPDF2 (pypdf2_body env pdf_path), enter B_PyPDF2 pdf_path w)"

subsection \<open>\<open>extract_with_pdfminer\<close>\<close>

text \<open>
  The literal before \<open>{text}\<close> in the f-string of line 41: one header line, with
  no page number.
\<close>

definition pdfminer_header :: pystr where
  "pdfminer_header =
     ascii ''\<newline>=== PDFMiner'' @ [0x63D0, 0x53D6, 0x7ED3, 0x679C] @ ascii '' ===\<newline>''"

text \<open>
  The \<open>try\<close>, lines 37 to 42: a whitespace-only text gives \<open>None\<close>.
\<close>

definition pdfminer_body :: "env \<Rightarrow> pystr \<Rightarrow> py_exception + pystr option" where
  "pdfminer_body env pdf_path =
     (case pdfminer_extract_text env pdf_path of
        Inl e \<Rightarrow> Inl e
      | Inr text \<Rightarrow>
          if py_strip text \<noteq> []
          then Inr (Some (pdfminer_header @ text @ ascii ''\<newline>''))
          else Inr None)"

text \<open>The function, lines 34 to 45.\<close>

definition extract_with_pdfminer ::
  "env \<Rightarrow> pystr \<Rightarrow> world \<Rightarrow> (py_exception + pystr option) \<times> world" where
  "extract_with_pdfminer env pdf_path w =
     (try_except PDFMiner (pdfminer_body env pdf_path), enter B_PDFMiner pdf_path w)"

subsection \<open>\<open>extract_with_pymupdf\<close>\<close>

text \<open>The page marker of line 61, for the number it shows.\<close>

definition pymupdf_marker :: "nat \<Rightarrow> pystr" where
  "pymupdf_marker n =
     ascii ''\<newline>=== '' @ [0x7B2C] @ ascii '' '' @ py_str n @ ascii '' '' @ [0x9875]
       @ ascii '' (PyMuPDF) ===\<newline>''"

text \<open>
  The loop \<open>for page_num in range(len(doc))\<close>, lines 57 to 62: \<open>page_num\<close> counts from
  0 and the marker shows \<open>page_num + 1\<close>.
\<close>

fun pymupdf_loop :: "nat \<Rightarrow> page list \<Rightarrow> pystr \<Rightarrow> py_exception + pystr" where
  "pymupdf_loop page_num [] text = Inr text"
| "pymupdf_loop page_num (page # pages) text =
     (case page of
        Inl e \<Rightarrow> Inl e
      | Inr page_text \<Rightarrow>
          if py_strip page_text \<noteq> []
          then pymupdf_loop (Suc page_num) pages
                 (text @ pymupdf_marker (page_num + 1) @ page_text @ ascii ''\<newline>'')
          else pymupdf_loop (Suc page_num) pages text)"

text \<open>
  The \<open>try\<close>, lines 50 to 65: opening, the print of the page count, the loop,
  \<open>doc.close()\<close>, the return.
\<close>

definition pymupdf_body :: "env \<Rightarrow> pystr \<Rightarrow> py_exception + pystr option" where
  "pymupdf_body env pdf_path =
     (case fitz_open env pdf_path of
        Inl e \<Rightarrow> Inl e
      | Inr doc \<Rightarrow>
          (case py_print (count_line PyMuPDF (length (doc_pages doc))) of
             Some e \<Rightarrow> Inl e
           | None \<Rightarrow>
               (case pymupdf_loop 0 (doc_pages doc) [] of
                  Inl e \<Rightarrow> Inl e
                | Inr text \<Rightarrow>
                    (case doc_close doc of
                       Some e \<Rightarrow> Inl e
                     | None \<Rightarrow> Inr (Some text)))))"

text \<open>The function, lines 47 to 68.\<close>

definition extract_with_pymupdf ::
  "env \<Rightarrow> pystr \<Rightarrow> world \<Rightarrow> (py_exception + pystr option) \<times> world" where
  "extract_with_pymupdf env pdf_path w =
     (try_except PyMuPDF (pymupdf_body env pdf_path), enter B_PyMuPDF pdf_path w)"

section \<open>The orchestrator \<open>extract_pdf_text\<close>\<close>

text \<open>The texts the orchestrator prints, lines 73, 76, 82, 86, 103, 134 and 136.\<close>

definition missing_line :: "pystr \<Rightarrow> pystr" where
  "missing_line pdf_path =
     [0x9519, 0x8BEF] @ ascii '': PDF'' @ [0x6587, 0x4EF6, 0x4E0D, 0x5B58, 0x5728] @ ascii '' - ''
       @ pdf_path"

definition start_line :: "pystr \<Rightarrow> pystr" where
  "start_line pdf_path =
     [0x5F00, 0x59CB, 0x63D0, 0x53D6] @ ascii ''PDF'' @ [0x6587, 0x4EF6] @ ascii '': '' @ pdf_path"

definition trying_line :: "pystr \<Rightarrow> pystr" where
  "trying_line name =
     ascii ''\<newline>'' @ [0x5C1D, 0x8BD5, 0x4F7F, 0x7528] @ ascii '' '' @ name @ ascii ''...''"

definition success_line :: "pystr \<Rightarrow> pystr" where
  "success_line name = name @ ascii '' '' @ [0x63D0, 0x53D6, 0x6210, 0x529F]"

definition all_failed_line :: pystr where
  "all_failed_line =
     [0x6240, 0x6709, 0x65B9, 0x6CD5, 0x90FD, 0x65E0, 0x6CD5, 0x63D0, 0x53D6, 0x6587, 0x672C,
      0x5185, 0x5BB9]"

definition saved_line :: "pystr \<Rightarrow> pystr" where
  "saved_line output_path =
     ascii ''\<newline>'' @ [0x63D0, 0x53D6, 0x7ED3, 0x679C, 0x5DF2, 0x4FDD, 0x5B58, 0x5230] @ ascii '': ''
       @ output_path"

definition save_failed_prefix :: pystr where
  "save_failed_prefix = [0x4FDD, 0x5B58, 0x6587, 0x4EF6, 0x5931, 0x8D25] @ ascii '': ''"

text \<open>
  \<open>if x_text: results[key] = x_text\<close>: \<open>None\<close> and the empty string are both false.
\<close>

fun store_if_truthy :: "pydict \<Rightarrow> pystr \<Rightarrow> pystr option \<Rightarrow> pydict" where
  "store_if_truthy results key None = results"
| "store_if_truthy results key (Some text) =
     (if text \<noteq> [] then dict_set results key text else results)"

text \<open>
  One of the three blocks of lines 81 to 100, for the backend \<open>name\<close> and its
  extractor: the print of the attempt, the call, and for a true value the store
  into \<open>results\<close> and the print of the success. An exception that escapes the
  extractor or a print ends the block.
\<close>

definition attempt ::
  "pystr \<Rightarrow> (world \<Rightarrow> (py_exception + pystr option) \<times> world) \<Rightarrow> pydict \<Rightarrow> world
     \<Rightarrow> (py_exception + pydict) \<times> world" where
  "attempt name extractor results w =
     (case py_print (trying_line name) of
        Some e \<Rightarrow> (Inl e, w)
      | None \<Rightarrow>
          (case extractor w of
             (Inl e, w') \<Rightarrow> (Inl e, w')
           | (Inr x_text, w') \<Rightarrow>
               if x_text \<noteq> None \<and> x_text \<noteq> Some []
               then (case py_print (success_line name) of
                       Some e \<Rightarrow> (Inl e, w')
                     | None \<Rightarrow> (Inr (store_if_truthy results name x_text), w'))
               else (Inr results, w')))"

text \<open>
  Lines 76 to 100: the print of the start, then the three blocks in the order of the
  source, none conditional on the value of an earlier one.
\<close>

definition run_extractors :: "env \<Rightarrow> pystr \<Rightarrow> world \<Rightarrow> (py_exception + pydict) \<times> world" where
  "run_extractors env pdf_path w0 =
     (case py_print (start_line pdf_path) of
        Some e \<Rightarrow> (Inl e, w0)
      | None \<Rightarrow>
          (case attempt PyPDF2 (extract_with_pypdf2 env pdf_path) [] w0 of
             (Inl e, w1) \<Rightarrow> (Inl e, w1)
           | (Inr results, w1) \<Rightarrow>
               (case attempt PDFMiner (extract_with_pdfminer env pdf_path) results w1 of
                  (Inl e, w2) \<Rightarrow> (Inl e, w2)
                | (Inr results, w2) \<Rightarrow>
                    attempt PyMuPDF (extract_with_pymupdf env pdf_path) results w2)))"

text \<open>Line 107: title, source path and extraction time.\<close>

definition report_header :: "env \<Rightarrow> pystr \<Rightarrow> pystr" where
  "report_header env pdf_path =
     ascii ''# PDF'' @ [0x6587, 0x672C, 0x63D0, 0x53D6, 0x7ED3, 0x679C] @ ascii ''\<newline>\<newline>''
       @ [0x6587, 0x4EF6] @ ascii '': '' @ pdf_path @ ascii ''\<newline>''
       @ [0x63D0, 0x53D6, 0x65F6, 0x95F4] @ ascii '': '' @ now env @ ascii ''\<newline>\<newline>''"

text \<open>
  Lines 110 to 118: the \<open>if\<close>/\<open>elif\<close>/\<open>else\<close> chain giving \<open>(best_text, method)\<close>.
  The subscripts are dictionary lookups and raise \<open>KeyError\<close> on an absent key.
\<close>

definition select_best :: "pydict \<Rightarrow> py_exception + (pystr \<times> pystr)" where
  "select_best results =
     (if dict_in PyMuPDF results then
        (case dict_get results PyMuPDF of Inl e \<Rightarrow> Inl e | Inr best_text \<Rightarrow> Inr (best_text, PyMuPDF))
      else if dict_in PDFMiner results then
        (case dict_get results PDFMiner of Inl e \<Rightarrow> Inl e | Inr best_text \<Rightarrow> Inr (best_text, PDFMiner))
      else
        (case dict_get results PyPDF2 of Inl e \<Rightarrow> Inl e | Inr best_text \<Rightarrow> Inr (best_text, PyPDF2)))"

text \<open>Line 120: the main section, labelled with \<open>method\<close>.\<close>

definition main_section :: "pystr \<Rightarrow> pystr \<Rightarrow> pystr" where
  "main_section method best_text =
     ascii ''## '' @ [0x4E3B, 0x8981, 0x5185, 0x5BB9] @ ascii '' ('' @ [0x4F7F, 0x7528] @ ascii '' ''
       @ method @ ascii '')\<newline>\<newline>'' @ best_text @ ascii ''\<newline>\<newline>''"

text \<open>Line 124: the header of the reference part.\<close>

definition reference_header :: pystr where
  "reference_header =
     ascii ''## '' @ [0x5176, 0x4ED6, 0x65B9, 0x6CD5, 0x63D0, 0x53D6, 0x7ED3, 0x679C, 0xFF08,
                      0x53C2, 0x8003, 0xFF09] @ ascii ''\<newline>\<newline>''"

text \<open>Line 127: one reference subsection.\<close>

definition reference_section :: "pystr \<Rightarrow> pystr \<Rightarrow> pystr" where
  "reference_section method_name text =
     ascii ''### '' @ method_name @ ascii ''\<newline>\<newline>'' @ text @ ascii ''\<newline>\<newline>''"

text \<open>Lines 125 to 127: the loop over \<open>results.items()\<close>, skipping the chosen method.\<close>

fun reference_loop :: "pydict \<Rightarrow> pystr \<Rightarrow> pystr" where
  "reference_loop [] method = []"
| "reference_loop ((method_name, text) # items) method =
     (if method_name \<noteq> method
      then reference_section method_name text @ reference_loop items method
      else reference_loop items method)"

text \<open>Lines 123 to 127: what is appended after the main section.\<close>

definition reference_part :: "pydict \<Rightarrow> pystr \<Rightarrow> pystr" where
  "reference_part results method =
     (if length results > 1 then reference_header @ reference_loop results method else [])"

text \<open>
  Lines 130 to 136: the write, when \<open>output_path\<close> is true (neither \<open>None\<close> nor
  empty). The \<open>try\<close> holds the open, the write and the print of the confirmation;
  the handler prints its diagnostic. The first component is \<open>None\<close> when the
  statement completes and \<open>Some e\<close> when \<open>e\<close> leaves it; the file system keeps what
  the attempt left.
\<close>

definition save_result ::
  "env \<Rightarrow> pystr option \<Rightarrow> pystr \<Rightarrow> world \<Rightarrow> py_exception option \<times> world" where
  "save_result env output_path combined_text w =
     (case output_path of
        None \<Rightarrow> (None, w)
      | Some out \<Rightarrow>
          if out = [] then (None, w)
          else
            (case write_text env out combined_text of
               OpenRaises r \<Rightarrow> (except_Exception save_failed_prefix (OSError r), w)
             | WriteRaises r left \<Rightarrow>
                 (except_Exception save_failed_prefix (OSError r),
                  w\<lparr>disk := (disk w)(out \<mapsto> left)\<rparr>)
             | Written \<Rightarrow>
                 (case py_print (saved_line out) of
                    Some e \<Rightarrow>
                      (except_Exception save_failed_prefix e,
                       w\<lparr>disk := (disk w)(out \<mapsto> combined_text)\<rparr>)
                  | None \<Rightarrow> (None, w\<lparr>disk := (disk w)(out \<mapsto> combined_text)\<rparr>))))"

text \<open>
  The function, lines 70 to 138. Its value is \<open>Inl e\<close> when the exception \<open>e\<close>
  escapes it, \<open>Inr None\<close> when it returns \<open>None\<close> and \<open>Inr (Some text)\<close> when it
  returns the report.
\<close>

definition extract_pdf_text ::
  "env \<Rightarrow> pystr \<Rightarrow> pystr option \<Rightarrow> world \<Rightarrow> (py_exception + pystr option) \<times> world" where
  "extract_pdf_text env pdf_path output_path w0 =
     (if \<not> path_exists env pdf_path then
        (case py_print (missing_line pdf_path) of
           Some e \<Rightarrow> (Inl e, w0)
         | None \<Rightarrow> (Inr None, w0))
      else
        (case run_extractors env pdf_path w0 of
           (Inl e, w1) \<Rightarrow> (Inl e, w1)
         | (Inr results, w1) \<Rightarrow>
             if results = [] then
               (case py_print all_failed_line of
                  Some e \<Rightarrow> (Inl e, w1)
                | None \<Rightarrow> (Inr None, w1))
             else
               (case select_best results of
                  Inl e \<Rightarrow> (Inl e, w1)
                | Inr (best_text, method) \<Rightarrow>
                    (let combined_text = report_header env pdf_path;
                         combined_text = combined_text @ main_section method best_text;
                         combined_text = combined_text @ reference_part results method
                     in (case save_result env output_path combined_text w1 of
                           (Some e, w2) \<Rightarrow> (Inl e, w2)
                         | (None, w2) \<Rightarrow> (Inr (Some combined_text), w2))))))"

section \<open>Notions of the specification\<close>

text \<open>
  The specification's static priority order, highest first, and the first backend of
  that order present in a results mapping.
\<close>

definition priority_order :: "pystr list" where
  "priority_order = [PyMuPDF, PDFMiner, PyPDF2]"

definition first_present :: "pydict \<Rightarrow> pystr option" where
  "first_present results = List.find (\<lambda>k. dict_in k results) priority_order"

text \<open>A text that is empty or consists of whitespace only.\<close>

definition whitespace_only :: "pystr \<Rightarrow> bool" where
  "whitespace_only s = list_all py_isspace s"

text \<open>
  The specification's page-delimited text: the pages are numbered from 1 by their
  position in the document, and each page with non-whitespace content gives one
  section, its marker followed by its text and a newline; the other pages give nothing.
\<close>

definition page_sections :: "(nat \<Rightarrow> pystr) \<Rightarrow> pystr list \<Rightarrow> pystr" where
  "page_sections marker texts =
     concat (map (\<lambda>(i, t). marker i @ t @ ascii ''\<newline>'')
               (filter (\<lambda>(i, t). \<not> whitespace_only t) (enumerate 1 texts)))"

text \<open>
  A backend call raises: some call into the library made for this path raises.
  For PyPDF2 that is the set-up or the text extraction of some page, for PDFMiner its
  one call, for PyMuPDF the opening, the text extraction of some page or the closing.
\<close>

definition pypdf2_raises :: "env \<Rightarrow> pystr \<Rightarrow> bool" where
  "pypdf2_raises env pdf_path =
     (case pypdf2_pages env pdf_path of Inl e \<Rightarrow> True | Inr pages \<Rightarrow> list_ex isl pages)"

definition pdfminer_raises :: "env \<Rightarrow> pystr \<Rightarrow> bool" where
  "pdfminer_raises env pdf_path = isl (pdfminer_extract_text env pdf_path)"

definition pymupdf_raises :: "env \<Rightarrow> pystr \<Rightarrow> bool" where
  "pymupdf_raises env pdf_path =
     (case fitz_open env pdf_path of
        Inl e \<Rightarrow> True
      | Inr doc \<Rightarrow> list_ex isl (doc_pages doc) \<or> doc_close doc \<noteq> None)"

text \<open>
  An error that a handler \<open>except Exception as e: print(f"\<dots>{e}")\<close> can report: an
  instance of \<open>Exception\<close> whose message can be formatted and holds no lone surrogate.
\<close>

fun reportable :: "py_exception \<Rightarrow> bool" where
  "reportable (Error m) = encodable m"
| "reportable (StrRaises e) = False"
| "reportable (Signal m) = False"
| "reportable (KeyError k) = True"
| "reportable (UnicodeEncodeError s) = True"
| "reportable (OSError r) = True"

text \<open>What a \<open>try\<close> does stays inside its function: it returns, or its error is reportable.\<close>

definition contained :: "py_exception + pystr option \<Rightarrow> bool" where
  "contained body = (case body of Inl e \<Rightarrow> reportable e | Inr r \<Rightarrow> True)"

section \<open>Sample runs\<close>

text \<open>
  Concrete environments on which the theorems below are instantiated: a document of
  three pages whose second page holds an ideographic space and a space only.
\<close>

definition sample_pdf :: pystr where
  "sample_pdf = ascii ''doc.pdf''"

definition sample_out :: pystr where
  "sample_out = ascii ''out.md''"

definition sample_texts :: "pystr list" where
  "sample_texts = [ascii ''Hi'', [0x3000, 0x20], ascii ''Yo'']"

definition world0 :: world where
  "world0 = \<lparr>disk = Map.empty, invoked = []\<rparr>"

definition import_error :: py_exception where
  "import_error = Error (ascii ''No module named fitz'')"

text \<open>A path that holds a lone surrogate, as a file name that is not valid UTF-8 gives.\<close>

definition surrogate_pdf :: pystr where
  "surrogate_pdf = [0xDC80] @ ascii ''.pdf''"

text \<open>All three backends succeed and the write succeeds; only \<open>sample_pdf\<close> exists.\<close>

definition sample_env :: env where
  "sample_env =
     \<lparr>path_exists = (\<lambda>p. p = sample_pdf),
      pypdf2_pages = (\<lambda>p. Inr (map Inr sample_texts)),
      pdfminer_extract_text = (\<lambda>p. Inr (ascii ''Hi Yo'')),
      fitz_open = (\<lambda>p. Inr \<lparr>doc_pages = map Inr sample_texts, doc_close = None\<rparr>),
      now = ascii ''2024-01-01 00:00:00'',
      write_text = (\<lambda>out t. Written)\<rparr>"

text \<open>PyMuPDF is not installed: the import raises.\<close>

definition env_no_fitz :: env where
  "env_no_fitz = sample_env\<lparr>fitz_open := (\<lambda>p. Inl import_error)\<rparr>"

text \<open>Only PyPDF2 succeeds.\<close>

definition env_only_pypdf2 :: env where
  "env_only_pypdf2 =
     env_no_fitz\<lparr>pdfminer_extract_text := (\<lambda>p. Inl (Error (ascii ''PDFSyntaxError'')))\<rparr>"

text \<open>
  Every backend raises a reportable error: PyPDF2 on its second page, after a first
  page with text, PDFMiner at once, PyMuPDF in \<open>doc.close()\<close>, after all pages were read.
\<close>

definition env_all_raise :: env where
  "env_all_raise =
     sample_env\<lparr>pypdf2_pages := (\<lambda>p. Inr [Inr (ascii ''Hi''), Inl (Error (ascii ''bad page''))]),
                pdfminer_extract_text := (\<lambda>p. Inl (Error (ascii ''PDFSyntaxError''))),
                fitz_open := (\<lambda>p. Inr \<lparr>doc_pages = map Inr sample_texts,
                                          doc_close = Some (Error (ascii ''close failed''))\<rparr>)\<rparr>"

text \<open>
  A scanned document: its one page has no text but a space and a newline, PDFMiner
  finds a form feed only, and PyMuPDF is not installed.
\<close>

definition env_scanned :: env where
  "env_scanned =
     env_no_fitz\<lparr>pypdf2_pages := (\<lambda>p. Inr [Inr [0x20, 0x0A]]),
                 pdfminer_extract_text := (\<lambda>p. Inr [0x0C])\<rparr>"

text \<open>PDFMiner raises an error whose \<open>__str__\<close> raises in its turn.\<close>

definition env_str_raises :: env where
  "env_str_raises =
     sample_env\<lparr>pdfminer_extract_text :=
                  (\<lambda>p. Inl (StrRaises (Error (ascii ''__str__ failed''))))\<rparr>"

text \<open>PyMuPDF ends the interpreter: it raises \<open>SystemExit\<close>.\<close>

definition env_exit :: env where
  "env_exit = sample_env\<lparr>fitz_open := (\<lambda>p. Inl (Signal (ascii ''SystemExit'')))\<rparr>"

text \<open>The file with the surrogate in its name exists too.\<close>

definition env_surrogate :: env where
  "env_surrogate = sample_env\<lparr>path_exists := (\<lambda>p. p = sample_pdf \<or> p = surrogate_pdf)\<rparr>"

section \<open>Lemmas on the Python values\<close>

lemma ascii_Nil_iff [simp]: "ascii s = [] \<longleftrightarrow> s = []"
  by (simp add: ascii_def)

lemma of_char_less_256: "(of_char c :: nat) < 256"
  by (cases c)
    (simp del: of_char_Char add: of_char_def of_bool_def horner_sum_simps split: if_splits)

lemma encodable_Nil [simp]: "encodable []"
  by (simp add: encodable_def)

lemma encodable_Cons [simp]: "encodable (c # s) \<longleftrightarrow> \<not> is_surrogate c \<and> encodable s"
  by (simp add: encodable_def)

lemma encodable_append [simp]: "encodable (s @ t) \<longleftrightarrow> encodable s \<and> encodable t"
  by (simp add: encodable_def)

lemma encodable_ascii [simp]: "encodable (ascii s)"
proof (induction s)
  case Nil
  show ?case by (simp add: ascii_def)
next
  case (Cons c s)
  have "\<not> is_surrogate (of_char c)"
    using of_char_less_256 [of c] unfolding is_surrogate_def by linarith
  with Cons show ?case by (simp add: ascii_def)
qed

lemma encodable_py_str [simp]: "encodable (py_str n)"
proof (induction n rule: py_str.induct)
  case (1 n)
  show ?case
  proof (cases "n < 10")
    case True
    then show ?thesis
      by (subst py_str.simps) (simp add: is_surrogate_def)
  next
    case False
    have "n mod 10 < 10" by simp
    then have "\<not> is_surrogate (48 + n mod 10)"
      unfolding is_surrogate_def by linarith
    with False 1 show ?thesis
      by (subst py_str.simps) simp
  qed
qed

lemma encodable_names [simp]: "encodable PyPDF2" "encodable PDFMiner" "encodable PyMuPDF"
  by (simp_all add: PyPDF2_def PDFMiner_def PyMuPDF_def)

text \<open>The prints whose text holds nothing but literals, names and numbers return.\<close>

lemma print_count_line [simp]: "encodable name \<Longrightarrow> py_print (count_line name n) = None"
  by (simp add: py_print_def count_line_def is_surrogate_def)

lemma print_trying_line [simp]: "encodable name \<Longrightarrow> py_print (trying_line name) = None"
  by (simp add: py_print_def trying_line_def is_surrogate_def)

lemma print_success_line [simp]: "encodable name \<Longrightarrow> py_print (success_line name) = None"
  by (simp add: py_print_def success_line_def is_surrogate_def)

lemma print_all_failed_line [simp]: "py_print all_failed_line = None"
  by (simp add: py_print_def all_failed_line_def is_surrogate_def)

lemma encodable_failed_prefix [simp]: "encodable name \<Longrightarrow> encodable (failed_prefix name)"
  by (simp add: failed_prefix_def is_surrogate_def)

lemma encodable_save_failed_prefix [simp]: "encodable save_failed_prefix"
  by (simp add: save_failed_prefix_def is_surrogate_def)

lemma print_start_line: "py_print (start_line p) = None \<longleftrightarrow> encodable p"
  by (simp add: py_print_def start_line_def is_surrogate_def)

lemma print_missing_line: "py_print (missing_line p) = None \<longleftrightarrow> encodable p"
  by (simp add: py_print_def missing_line_def is_surrogate_def)

text \<open>A handler with an encodable prefix completes exactly on the reportable errors.\<close>

lemma except_Exception_None_iff:
  "encodable prefix \<Longrightarrow> except_Exception prefix e = None \<longleftrightarrow> reportable e"
  by (cases e) (simp_all add: except_Exception_def py_print_def)

lemma try_except_Inl:
  "encodable name \<Longrightarrow> reportable e \<Longrightarrow> try_except name (Inl e) = Inr None"
  using except_Exception_None_iff [of "failed_prefix name" e]
  by (simp add: try_except_def)

lemma try_except_Inl_escapes:
  "encodable name \<Longrightarrow> \<not> reportable e \<Longrightarrow> \<exists>e'. try_except name (Inl e) = Inl e'"
  using except_Exception_None_iff [of "failed_prefix name" e]
  by (cases "except_Exception (failed_prefix name) e") (simp_all add: try_except_def)

lemma try_except_Inr [simp]: "try_except name (Inr r) = Inr r"
  by (simp add: try_except_def)

lemma try_except_contained:
  "encodable name \<Longrightarrow> contained body \<Longrightarrow>
   try_except name body = (case body of Inl e \<Rightarrow> Inr None | Inr r \<Rightarrow> Inr r)"
  by (cases body) (simp_all add: contained_def try_except_Inl)

lemma try_except_Inr_iff:
  "encodable name \<Longrightarrow> (\<exists>r. try_except name body = Inr r) \<longleftrightarrow> contained body"
proof (cases body)
  case (Inl e)
  assume "encodable name"
  with Inl show ?thesis
    using try_except_Inl [of name e] try_except_Inl_escapes [of name e]
    by (cases "reportable e") (auto simp: contained_def)
next
  case (Inr r)
  then show ?thesis by (simp add: contained_def)
qed

lemma backend_names_distinct:
  "PyPDF2 \<noteq> PDFMiner" "PyPDF2 \<noteq> PyMuPDF" "PDFMiner \<noteq> PyMuPDF"
  "PDFMiner \<noteq> PyPDF2" "PyMuPDF \<noteq> PyPDF2" "PyMuPDF \<noteq> PDFMiner"
  by (simp_all add: PyPDF2_def PDFMiner_def PyMuPDF_def ascii_def)

lemma all_dropWhile: "(\<forall>x\<in>set (dropWhile P s). P x) \<longleftrightarrow> (\<forall>x\<in>set s. P x)"
  by (induction s) auto

text \<open>The test \<open>if page_text.strip()\<close> fails exactly on the whitespace-only texts.\<close>

lemma whitespace_only_strip: "whitespace_only s \<longleftrightarrow> py_strip s = []"
  by (simp add: whitespace_only_def py_strip_def all_dropWhile list_all_iff)

lemma dict_in_dict_set: "dict_in k (dict_set d k' v) = (k = k' \<or> dict_in k d)"
  by (induction d k' v rule: dict_set.induct) (auto simp: dict_in_def)

lemma keys_dict_set: "fst ` set (dict_set d k v) = insert k (fst ` set d)"
  by (induction d k v rule: dict_set.induct) auto

lemma keys_store_if_truthy:
  "fst ` set (store_if_truthy d k r) \<subseteq> insert k (fst ` set d)"
  by (cases r) (auto simp: keys_dict_set)

lemma store_if_truthy_false:
  "r = None \<or> r = Some [] \<Longrightarrow> store_if_truthy d k r = d"
  by auto

lemma dict_in_store_if_truthy:
  "dict_in k (store_if_truthy d k' r) =
     ((k = k' \<and> (\<exists>t. r = Some t \<and> t \<noteq> [])) \<or> dict_in k d)"
  by (cases r) (auto simp: dict_in_dict_set)

section \<open>Lemmas on the extractors\<close>

text \<open>The value of an extractor does not depend on the world it is called in.\<close>

lemma fst_extract_with_pypdf2:
  "fst (extract_with_pypdf2 env p w) = try_except PyPDF2 (pypdf2_body env p)"
  by (simp add: extract_with_pypdf2_def)

lemma snd_extract_with_pypdf2: "snd (extract_with_pypdf2 env p w) = enter B_PyPDF2 p w"
  by (simp add: extract_with_pypdf2_def)

lemma fst_extract_with_pdfminer:
  "fst (extract_with_pdfminer env p w) = try_except PDFMiner (pdfminer_body env p)"
  by (simp add: extract_with_pdfminer_def)

lemma snd_extract_with_pdfminer: "snd (extract_with_pdfminer env p w) = enter B_PDFMiner p w"
  by (simp add: extract_with_pdfminer_def)

lemma fst_extract_with_pymupdf:
  "fst (extract_with_pymupdf env p w) = try_except PyMuPDF (pymupdf_body env p)"
  by (simp add: extract_with_pymupdf_def)

lemma snd_extract_with_pymupdf: "snd (extract_with_pymupdf env p w) = enter B_PyMuPDF p w"
  by (simp add: extract_with_pymupdf_def)

text \<open>When no page raises, each loop appends the sections of the remaining pages.\<close>

lemma pypdf2_loop_sections:
  "pypdf2_loop n (map Inr texts) acc =
     Inr (acc @ concat (map (\<lambda>(i, t). pypdf2_marker i @ t @ ascii ''\<newline>'')
                     (filter (\<lambda>(i, t). \<not> whitespace_only t) (enumerate n texts))))"
  by (induction texts arbitrary: n acc) (simp_all add: whitespace_only_strip)

lemma pymupdf_loop_sections:
  "pymupdf_loop n (map Inr texts) acc =
     Inr (acc @ concat (map (\<lambda>(i, t). pymupdf_marker i @ t @ ascii ''\<newline>'')
                     (filter (\<lambda>(i, t). \<not> whitespace_only t) (enumerate (Suc n) texts))))"
  by (induction texts arbitrary: n acc) (simp_all add: whitespace_only_strip)

text \<open>A loop raises exactly when some page raises, whatever was accumulated.\<close>

lemma pypdf2_loop_raises:
  "(\<exists>e. pypdf2_loop n pages acc = Inl e) \<longleftrightarrow> list_ex isl pages"
proof (induction pages arbitrary: n acc)
  case Nil
  show ?case by simp
next
  case (Cons page pages)
  show ?case
  proof (cases page)
    case (Inl e)
    then show ?thesis by simp
  next
    case (Inr page_text)
    then show ?thesis
      using Cons.IH [of "Suc n"] by simp
  qed
qed

lemma pymupdf_loop_raises:
  "(\<exists>e. pymupdf_loop n pages acc = Inl e) \<longleftrightarrow> list_ex isl pages"
proof (induction pages arbitrary: n acc)
  case Nil
  show ?case by simp
next
  case (Cons page pages)
  show ?case
  proof (cases page)
    case (Inl e)
    then show ?thesis by simp
  next
    case (Inr page_text)
    then show ?thesis
      using Cons.IH [of "Suc n"] by simp
  qed
qed


text \<open>A \<open>try\<close> raises exactly when a call into its library raises.\<close>

lemma pypdf2_body_raises: "(\<exists>e. pypdf2_body env p = Inl e) \<longleftrightarrow> pypdf2_raises env p"
proof (cases "pypdf2_pages env p")
  case (Inl e)
  then show ?thesis by (simp add: pypdf2_body_def pypdf2_raises_def)
next
  case (Inr pages)
  show ?thesis
  proof (cases "pypdf2_loop 1 pages []")
    case (Inl e)
    then have "list_ex isl pages"
      using pypdf2_loop_raises by blast
    with Inl Inr show ?thesis
      by (simp add: pypdf2_body_def pypdf2_raises_def)
  next
    case loop: (Inr t)
    then have "\<not> list_ex isl pages"
      using pypdf2_loop_raises [of 1 pages "[]"] by auto
    with loop Inr show ?thesis
      by (simp add: pypdf2_body_def pypdf2_raises_def)
  qed
qed

lemma pdfminer_body_raises: "(\<exists>e. pdfminer_body env p = Inl e) \<longleftrightarrow> pdfminer_raises env p"
  by (cases "pdfminer_extract_text env p") (simp_all add: pdfminer_body_def pdfminer_raises_def)

lemma pymupdf_body_raises: "(\<exists>e. pymupdf_body env p = Inl e) \<longleftrightarrow> pymupdf_raises env p"
proof (cases "fitz_open env p")
  case (Inl e)
  then show ?thesis by (simp add: pymupdf_body_def pymupdf_raises_def)
next
  case (Inr doc)
  show ?thesis
  proof (cases "pymupdf_loop 0 (doc_pages doc) []")
    case (Inl e)
    then have "list_ex isl (doc_pages doc)"
      using pymupdf_loop_raises by blast
    with Inl Inr show ?thesis
      by (simp add: pymupdf_body_def pymupdf_raises_def)
  next
    case loop: (Inr t)
    then have "\<not> list_ex isl (doc_pages doc)"
      using pymupdf_loop_raises [of 0 "doc_pages doc" "[]"] by auto
    with loop Inr show ?thesis
      by (cases "doc_close doc") (simp_all add: pymupdf_body_def pymupdf_raises_def)
  qed
qed

lemma sections_Nil_iff:
  "concat (map (\<lambda>(i, t). marker i @ t @ ascii ''\<newline>'')
       (filter (\<lambda>(i, t). \<not> whitespace_only t) (enumerate n texts))) = []
   \<longleftrightarrow> list_all whitespace_only texts"
  by (induction texts arbitrary: n) simp_all

lemma page_sections_Nil_iff:
  "page_sections marker texts = [] \<longleftrightarrow> list_all whitespace_only texts"
  unfolding page_sections_def by (rule sections_Nil_iff)

lemma pypdf2_body_pages:
  "pypdf2_pages env p = Inr (map Inr texts) \<Longrightarrow>
   pypdf2_body env p = Inr (Some (page_sections pypdf2_marker texts))"
  by (simp add: pypdf2_body_def pypdf2_loop_sections page_sections_def)

lemma pymupdf_body_pages:
  "fitz_open env p = Inr doc \<Longrightarrow> doc_pages doc = map Inr texts \<Longrightarrow> doc_close doc = None \<Longrightarrow>
   pymupdf_body env p = Inr (Some (page_sections pymupdf_marker texts))"
  by (simp add: pymupdf_body_def pymupdf_loop_sections page_sections_def)





section \<open>Lemmas on the orchestrator\<close>

text \<open>A block for a backend name prints its two lines without fail.\<close>

lemma attempt_unfold:
  assumes "encodable name"
  shows "attempt name extractor results w =
     (case fst (extractor w) of
        Inl e \<Rightarrow> (Inl e, snd (extractor w))
      | Inr x \<Rightarrow> (Inr (store_if_truthy results name x), snd (extractor w)))"
proof (cases "extractor w")
  case (Pair v w')
  show ?thesis
  proof (cases v)
    case (Inl e)
    with Pair assms show ?thesis by (simp add: attempt_def)
  next
    case (Inr x)
    with Pair assms show ?thesis
      by (cases x) (auto simp: attempt_def)
  qed
qed

text \<open>
  The three values of a run: what the extractors return or raise, in any world.
\<close>

lemma run_extractors_unfold:
  "run_extractors env p w =
     (if \<not> encodable p then (Inl (UnicodeEncodeError (start_line p)), w)
      else
        (case try_except PyPDF2 (pypdf2_body env p) of
           Inl e \<Rightarrow> (Inl e, enter B_PyPDF2 p w)
         | Inr r1 \<Rightarrow>
             (case try_except PDFMiner (pdfminer_body env p) of
                Inl e \<Rightarrow> (Inl e, enter B_PDFMiner p (enter B_PyPDF2 p w))
              | Inr r2 \<Rightarrow>
                  (case try_except PyMuPDF (pymupdf_body env p) of
                     Inl e \<Rightarrow> (Inl e, enter B_PyMuPDF p (enter B_PDFMiner p (enter B_PyPDF2 p w)))
                   | Inr r3 \<Rightarrow>
                       (Inr (store_if_truthy
                               (store_if_truthy (store_if_truthy [] PyPDF2 r1) PDFMiner r2)
                               PyMuPDF r3),
                        enter B_PyMuPDF p (enter B_PDFMiner p (enter B_PyPDF2 p w)))))))"
proof (cases "encodable p")
  case False
  then have "\<not> encodable (start_line p)"
    by (simp add: start_line_def)
  then have "py_print (start_line p) = Some (UnicodeEncodeError (start_line p))"
    by (simp add: py_print_def)
  with False show ?thesis
    by (simp add: run_extractors_def)
next
  case True
  then have "py_print (start_line p) = None"
    by (simp add: print_start_line)
  with True show ?thesis
    by (simp add: run_extractors_def attempt_unfold extract_with_pypdf2_def
        extract_with_pdfminer_def extract_with_pymupdf_def split: sum.splits)
qed

lemma run_extractors_Inr:
  assumes "fst (run_extractors env p w) = Inr results"
  shows "encodable p \<and> (\<exists>r1 r2 r3.
           try_except PyPDF2 (pypdf2_body env p) = Inr r1
           \<and> try_except PDFMiner (pdfminer_body env p) = Inr r2
           \<and> try_except PyMuPDF (pymupdf_body env p) = Inr r3
           \<and> results = store_if_truthy
                          (store_if_truthy (store_if_truthy [] PyPDF2 r1) PDFMiner r2)
                          PyMuPDF r3)
         \<and> snd (run_extractors env p w)
             = enter B_PyMuPDF p (enter B_PDFMiner p (enter B_PyPDF2 p w))"
  using assms unfolding run_extractors_unfold
  by (auto split: if_splits sum.splits)

lemma run_extractors_returns:
  assumes "encodable p"
    and "try_except PyPDF2 (pypdf2_body env p) = Inr r1"
    and "try_except PDFMiner (pdfminer_body env p) = Inr r2"
    and "try_except PyMuPDF (pymupdf_body env p) = Inr r3"
  shows "run_extractors env p w =
           (Inr (store_if_truthy (store_if_truthy (store_if_truthy [] PyPDF2 r1) PDFMiner r2)
                   PyMuPDF r3),
            enter B_PyMuPDF p (enter B_PDFMiner p (enter B_PyPDF2 p w)))"
  using assms unfolding run_extractors_unfold by simp

lemma disk_run_extractors: "disk (snd (run_extractors env p w)) = disk w"
  unfolding run_extractors_unfold
  by (simp add: enter_def split: sum.splits)

lemma bodies_write_text:
  "pypdf2_body (env\<lparr>write_text := wr\<rparr>) p = pypdf2_body env p"
  "pdfminer_body (env\<lparr>write_text := wr\<rparr>) p = pdfminer_body env p"
  "pymupdf_body (env\<lparr>write_text := wr\<rparr>) p = pymupdf_body env p"
  by (simp_all add: pypdf2_body_def pdfminer_body_def pymupdf_body_def)

lemma run_extractors_write_text:
  "run_extractors (env\<lparr>write_text := wr\<rparr>) p w = run_extractors env p w"
  unfolding run_extractors_unfold bodies_write_text ..

text \<open>The write statement always completes, and leaves the log of invocations alone.\<close>

lemma save_result_completes: "fst (save_result env output_path t w) = None"
  by (simp add: save_result_def except_Exception_def py_print_def
      split: option.splits write_outcome.splits)


text \<open>The keys of the results mapping are among the three backend names.\<close>

lemma results_keys:
  assumes "fst (run_extractors env p w) = Inr results"
  shows "fst ` set results \<subseteq> {PyPDF2, PDFMiner, PyMuPDF}"
proof -
  from run_extractors_Inr [OF assms] obtain r1 r2 r3 where
    res: "results = store_if_truthy
              (store_if_truthy (store_if_truthy [] PyPDF2 r1) PDFMiner r2) PyMuPDF r3"
    by blast
  let ?d1 = "store_if_truthy [] PyPDF2 r1"
  let ?d2 = "store_if_truthy ?d1 PDFMiner r2"
  have 1: "fst ` set ?d1 \<subseteq> {PyPDF2}"
    using keys_store_if_truthy [of "[]" PyPDF2] by simp
  have "fst ` set ?d2 \<subseteq> insert PDFMiner (fst ` set ?d1)"
    by (rule keys_store_if_truthy)
  with 1 have 2: "fst ` set ?d2 \<subseteq> {PyPDF2, PDFMiner}"
    by blast
  have "fst ` set (store_if_truthy ?d2 PyMuPDF r3) \<subseteq> insert PyMuPDF (fst ` set ?d2)"
    by (rule keys_store_if_truthy)
  with 2 res show ?thesis
    by blast
qed

text \<open>A backend is a key of the mapping exactly when its extractor returned a non-empty text.\<close>

lemma dict_in_results:
  assumes "fst (run_extractors env p w) = Inr results"
  shows "dict_in k results =
     (k = PyPDF2 \<and> (\<exists>t. fst (extract_with_pypdf2 env p w1) = Inr (Some t) \<and> t \<noteq> [])
      \<or> k = PDFMiner \<and> (\<exists>t. fst (extract_with_pdfminer env p w2) = Inr (Some t) \<and> t \<noteq> [])
      \<or> k = PyMuPDF \<and> (\<exists>t. fst (extract_with_pymupdf env p w3) = Inr (Some t) \<and> t \<noteq> []))"
proof -
  from run_extractors_Inr [OF assms] obtain r1 r2 r3 where
    v: "try_except PyPDF2 (pypdf2_body env p) = Inr r1"
    "try_except PDFMiner (pdfminer_body env p) = Inr r2"
    "try_except PyMuPDF (pymupdf_body env p) = Inr r3"
    and res: "results = store_if_truthy
              (store_if_truthy (store_if_truthy [] PyPDF2 r1) PDFMiner r2) PyMuPDF r3"
    by blast
  have "dict_in k results =
      ((k = PyMuPDF \<and> (\<exists>t. r3 = Some t \<and> t \<noteq> []))
       \<or> (k = PDFMiner \<and> (\<exists>t. r2 = Some t \<and> t \<noteq> []))
       \<or> (k = PyPDF2 \<and> (\<exists>t. r1 = Some t \<and> t \<noteq> []))
       \<or> dict_in k [])"
    by (simp only: res dict_in_store_if_truthy)
  moreover have "\<not> dict_in k []"
    by (simp add: dict_in_def)
  ultimately show ?thesis
    unfolding fst_extract_with_pypdf2 fst_extract_with_pdfminer fst_extract_with_pymupdf v
    by auto
qed

text \<open>
  On a non-empty mapping with keys among the three names, the selection returns; on
  the empty mapping its last subscript raises.
\<close>

lemma select_best_total:
  assumes "fst ` set results \<subseteq> {PyPDF2, PDFMiner, PyMuPDF}" and "results \<noteq> []"
  shows "\<exists>best_text chosen. select_best results = Inr (best_text, chosen)
           \<and> map_of results chosen = Some best_text"
proof -
  from assms(2) obtain k where k: "k \<in> fst ` set results"
    by (cases results) auto
  then have "dict_in k results"
    by (simp add: dict_in_def map_of_eq_None_iff)
  moreover from k assms(1) have "k \<in> {PyPDF2, PDFMiner, PyMuPDF}"
    by blast
  ultimately show ?thesis
    by (auto simp: select_best_def dict_get_def dict_in_def)
qed

lemma select_best_empty_raises: "select_best [] = Inl (KeyError PyPDF2)"
  by (simp add: select_best_def dict_in_def dict_get_def)

lemma first_present_select_best:
  "select_best results = Inr (best_text, chosen) \<Longrightarrow> first_present results = Some chosen"
  by (auto simp: select_best_def first_present_def priority_order_def dict_get_def dict_in_def
      split: if_splits option.splits)

text \<open>The value and the final world of a run that has results, and of one that has none.\<close>

lemma extract_pdf_text_value:
  assumes "path_exists env p" and "fst (run_extractors env p w) = Inr results"
    and "select_best results = Inr (best_text, chosen)" and "results \<noteq> []"
  shows "extract_pdf_text env p out w =
    (Inr (Some (report_header env p @ main_section chosen best_text
                  @ reference_part results chosen)),
     snd (save_result env out
       (report_header env p @ main_section chosen best_text @ reference_part results chosen)
       (snd (run_extractors env p w))))"
proof -
  let ?t = "report_header env p @ main_section chosen best_text @ reference_part results chosen"
  obtain r w2 where s: "save_result env out ?t (snd (run_extractors env p w)) = (r, w2)"
    by (cases "save_result env out ?t (snd (run_extractors env p w))")
  with save_result_completes [of env out ?t "snd (run_extractors env p w)"] have "r = None"
    by simp
  with s assms show ?thesis
    by (cases "run_extractors env p w") (simp add: extract_pdf_text_def Let_def)
qed

lemma extract_pdf_text_no_results:
  assumes "fst (run_extractors env p w) = Inr []"
  shows "fst (extract_pdf_text env p out w) = Inr None"
proof (cases "path_exists env p")
  case True
  with assms show ?thesis
    by (cases "run_extractors env p w") (simp add: extract_pdf_text_def)
next
  case False
  from run_extractors_Inr [OF assms] have "encodable p" by blast
  then have "py_print (missing_line p) = None"
    by (simp add: print_missing_line)
  with False show ?thesis
    by (simp add: extract_pdf_text_def)
qed

lemma extract_pdf_text_raises:
  assumes "path_exists env p" and "fst (run_extractors env p w) = Inl e"
  shows "extract_pdf_text env p out w = (Inl e, snd (run_extractors env p w))"
  using assms by (cases "run_extractors env p w") (simp add: extract_pdf_text_def)

section \<open>Facts about the sample runs\<close>

lemma encodable_samples [simp]: "encodable sample_pdf" "encodable sample_out"
  by (simp_all add: sample_pdf_def sample_out_def)

lemma surrogate_pdf_not_encodable [simp]: "\<not> encodable surrogate_pdf"
  by (simp add: surrogate_pdf_def is_surrogate_def)

lemma sample_texts_not_blank: "\<not> list_all whitespace_only sample_texts"
  by (simp add: sample_texts_def whitespace_only_def py_isspace_def ascii_def)

lemma sample_sections:
  "page_sections marker sample_texts =
     marker 1 @ ascii ''Hi'' @ ascii ''\<newline>'' @ marker 3 @ ascii ''Yo'' @ ascii ''\<newline>''"
  by (simp add: page_sections_def sample_texts_def enumerate_simps whitespace_only_def
      py_isspace_def ascii_def numeral_3_eq_3)

lemma sample_pypdf2_value:
  "pypdf2_pages env p = Inr (map Inr sample_texts) \<Longrightarrow>
   try_except PyPDF2 (pypdf2_body env p) = Inr (Some (page_sections pypdf2_marker sample_texts))"
  by (simp add: pypdf2_body_pages)

lemma sample_pdfminer_body:
  "pdfminer_extract_text env p = Inr (ascii ''Hi Yo'') \<Longrightarrow>
   pdfminer_body env p = Inr (Some (pdfminer_header @ ascii ''Hi Yo'' @ ascii ''\<newline>''))"
  by (simp add: pdfminer_body_def whitespace_only_strip [symmetric]
      whitespace_only_def py_isspace_def ascii_def)

lemma sample_pdfminer_value:
  "pdfminer_extract_text env p = Inr (ascii ''Hi Yo'') \<Longrightarrow>
   try_except PDFMiner (pdfminer_body env p) =
     Inr (Some (pdfminer_header @ ascii ''Hi Yo'' @ ascii ''\<newline>''))"
  by (simp add: sample_pdfminer_body)

lemma sample_pymupdf_value:
  "fitz_open env p = Inr \<lparr>doc_pages = map Inr sample_texts, doc_close = None\<rparr> \<Longrightarrow>
   try_except PyMuPDF (pymupdf_body env p) = Inr (Some (page_sections pymupdf_marker sample_texts))"
  by (simp add: pymupdf_body_pages [where texts = sample_texts])

lemma raising_pymupdf_value:
  "fitz_open env p = Inl e \<Longrightarrow> reportable e \<Longrightarrow> try_except PyMuPDF (pymupdf_body env p) = Inr None"
  by (simp add: pymupdf_body_def try_except_Inl)

lemma raising_pdfminer_value:
  "pdfminer_extract_text env p = Inl e \<Longrightarrow> reportable e \<Longrightarrow>
   try_except PDFMiner (pdfminer_body env p) = Inr None"
  by (simp add: pdfminer_body_def try_except_Inl)

lemma reportable_import_error [simp]: "reportable import_error"
  by (simp add: import_error_def)

lemma sample_env_run:
  "run_extractors sample_env sample_pdf w =
     (Inr [(PyPDF2, page_sections pypdf2_marker sample_texts),
           (PDFMiner, pdfminer_header @ ascii ''Hi Yo'' @ ascii ''\<newline>''),
           (PyMuPDF, page_sections pymupdf_marker sample_texts)],
      enter B_PyMuPDF sample_pdf (enter B_PDFMiner sample_pdf (enter B_PyPDF2 sample_pdf w)))"
proof -
  have "try_except PyPDF2 (pypdf2_body sample_env sample_pdf)
          = Inr (Some (page_sections pypdf2_marker sample_texts))"
    by (simp add: sample_pypdf2_value sample_env_def)
  moreover have "try_except PDFMiner (pdfminer_body sample_env sample_pdf)
          = Inr (Some (pdfminer_header @ ascii ''Hi Yo'' @ ascii ''\<newline>''))"
    by (simp add: sample_pdfminer_value sample_env_def)
  moreover have "try_except PyMuPDF (pymupdf_body sample_env sample_pdf)
          = Inr (Some (page_sections pymupdf_marker sample_texts))"
    by (simp add: sample_pymupdf_value sample_env_def)
  ultimately show ?thesis
    using run_extractors_returns [of sample_pdf sample_env _ _ _ w]
    by (simp add: page_sections_Nil_iff sample_texts_not_blank backend_names_distinct)
qed

lemma env_no_fitz_run:
  "fst (run_extractors env_no_fitz sample_pdf w) =
     Inr [(PyPDF2, page_sections pypdf2_marker sample_texts),
          (PDFMiner, pdfminer_header @ ascii ''Hi Yo'' @ ascii ''\<newline>'')]"
proof -
  have "try_except PyPDF2 (pypdf2_body env_no_fitz sample_pdf)
          = Inr (Some (page_sections pypdf2_marker sample_texts))"
    by (simp add: sample_pypdf2_value env_no_fitz_def sample_env_def)
  moreover have "try_except PDFMiner (pdfminer_body env_no_fitz sample_pdf)
          = Inr (Some (pdfminer_header @ ascii ''Hi Yo'' @ ascii ''\<newline>''))"
    by (simp add: sample_pdfminer_value env_no_fitz_def sample_env_def)
  moreover have "try_except PyMuPDF (pymupdf_body env_no_fitz sample_pdf) = Inr None"
    by (simp add: raising_pymupdf_value [where e = import_error] env_no_fitz_def)
  ultimately show ?thesis
    using run_extractors_returns [of sample_pdf env_no_fitz _ _ _ w]
    by (simp add: page_sections_Nil_iff sample_texts_not_blank backend_names_distinct)
qed

lemma env_only_pypdf2_run:
  "fst (run_extractors env_only_pypdf2 sample_pdf w) =
     Inr [(PyPDF2, page_sections pypdf2_marker sample_texts)]"
proof -
  have "try_except PyPDF2 (pypdf2_body env_only_pypdf2 sample_pdf)
          = Inr (Some (page_sections pypdf2_marker sample_texts))"
    by (simp add: sample_pypdf2_value env_only_pypdf2_def env_no_fitz_def sample_env_def)
  moreover have "try_except PDFMiner (pdfminer_body env_only_pypdf2 sample_pdf) = Inr None"
    by (simp add: raising_pdfminer_value [where e = "Error (ascii ''PDFSyntaxError'')"]
        env_only_pypdf2_def)
  moreover have "try_except PyMuPDF (pymupdf_body env_only_pypdf2 sample_pdf) = Inr None"
    by (simp add: raising_pymupdf_value [where e = import_error] env_only_pypdf2_def
        env_no_fitz_def)
  ultimately show ?thesis
    using run_extractors_returns [of sample_pdf env_only_pypdf2 _ _ _ w]
    by (simp add: page_sections_Nil_iff sample_texts_not_blank)
qed

lemma env_all_raise_raises:
  "pypdf2_raises env_all_raise p" "pdfminer_raises env_all_raise p" "pymupdf_raises env_all_raise p"
  by (simp_all add: pypdf2_raises_def pdfminer_raises_def pymupdf_raises_def env_all_raise_def
      sample_env_def)

lemma env_all_raise_bodies:
  "pypdf2_body env_all_raise p = Inl (Error (ascii ''bad page''))"
  "pdfminer_body env_all_raise p = Inl (Error (ascii ''PDFSyntaxError''))"
  "pymupdf_body env_all_raise p = Inl (Error (ascii ''close failed''))"
  by (simp_all add: pypdf2_body_def pdfminer_body_def pymupdf_body_def env_all_raise_def
      sample_env_def pymupdf_loop_sections whitespace_only_strip [symmetric]
      whitespace_only_def py_isspace_def ascii_def)

lemma env_scanned_values:
  "fst (extract_with_pypdf2 env_scanned p w) = Inr (Some [])"
  "fst (extract_with_pdfminer env_scanned p w) = Inr None"
  "fst (extract_with_pymupdf env_scanned p w) = Inr None"
proof -
  show "fst (extract_with_pypdf2 env_scanned p w) = Inr (Some [])"
    by (simp add: fst_extract_with_pypdf2 pypdf2_body_def env_scanned_def
        whitespace_only_strip [symmetric] whitespace_only_def py_isspace_def)
  show "fst (extract_with_pdfminer env_scanned p w) = Inr None"
    by (simp add: fst_extract_with_pdfminer pdfminer_body_def env_scanned_def
        whitespace_only_strip [symmetric] whitespace_only_def py_isspace_def)
  show "fst (extract_with_pymupdf env_scanned p w) = Inr None"
    by (simp add: fst_extract_with_pymupdf raising_pymupdf_value [where e = import_error]
        env_scanned_def env_no_fitz_def)
qed

text \<open>The two runs in which an exception leaves the handler of an extractor.\<close>

lemma env_str_raises_run:
  "run_extractors env_str_raises sample_pdf w =
     (Inl (Error (ascii ''__str__ failed'')),
      enter B_PDFMiner sample_pdf (enter B_PyPDF2 sample_pdf w))"
proof -
  have "try_except PyPDF2 (pypdf2_body env_str_raises sample_pdf)
          = Inr (Some (page_sections pypdf2_marker sample_texts))"
    by (simp add: sample_pypdf2_value env_str_raises_def sample_env_def)
  moreover have "try_except PDFMiner (pdfminer_body env_str_raises sample_pdf)
          = Inl (Error (ascii ''__str__ failed''))"
    by (simp add: try_except_def except_Exception_def pdfminer_body_def env_str_raises_def)
  ultimately show ?thesis
    unfolding run_extractors_unfold by simp
qed

lemma env_exit_run:
  "fst (run_extractors env_exit sample_pdf w) = Inl (Signal (ascii ''SystemExit''))"
proof -
  have "try_except PyPDF2 (pypdf2_body env_exit sample_pdf)
          = Inr (Some (page_sections pypdf2_marker sample_texts))"
    by (simp add: sample_pypdf2_value env_exit_def sample_env_def)
  moreover have "try_except PDFMiner (pdfminer_body env_exit sample_pdf)
          = Inr (Some (pdfminer_header @ ascii ''Hi Yo'' @ ascii ''\<newline>''))"
    by (simp add: sample_pdfminer_value env_exit_def sample_env_def)
  moreover have "try_except PyMuPDF (pymupdf_body env_exit sample_pdf)
          = Inl (Signal (ascii ''SystemExit''))"
    by (simp add: try_except_def except_Exception_def pymupdf_body_def env_exit_def)
  ultimately show ?thesis
    unfolding run_extractors_unfold by simp
qed

section \<open>The claims\<close>

subsection \<open>C1: the main section is the first backend of the priority order\<close>

text \<open>
  Claim C1. In every run in which the results mapping is non-empty, the report holds,
  after its header, the main section of line 120: the heading with the name of the
  first backend of the order PyMuPDF, PDFMiner, PyPDF2 that is a key of the mapping,
  then the text the mapping has for that backend; the reference part follows.
\<close>

theorem primary_is_priority_first:
  assumes "path_exists env pdf_path"
    and "fst (run_extractors env pdf_path w) = Inr results"
    and "results \<noteq> []"
  shows "\<exists>method best_text.
           first_present results = Some method \<and> map_of results method = Some best_text \<and>
           fst (extract_pdf_text env pdf_path output_path w) =
             Inr (Some (report_header env pdf_path
                        @ ascii ''## '' @ [0x4E3B, 0x8981, 0x5185, 0x5BB9] @ ascii '' (''
                        @ [0x4F7F, 0x7528] @ ascii '' '' @ method @ ascii '')\<newline>\<newline>''
                        @ best_text @ ascii ''\<newline>\<newline>''
                        @ reference_part results method))"
proof -
  have "fst ` set results \<subseteq> {PyPDF2, PDFMiner, PyMuPDF}"
    using results_keys [OF assms(2)] .
  then obtain best_text chosen where
    sel: "select_best results = Inr (best_text, chosen)"
    and val: "map_of results chosen = Some best_text"
    using select_best_total assms(3) by blast
  have "first_present results = Some chosen"
    using sel by (rule first_present_select_best)
  moreover have "fst (extract_pdf_text env pdf_path output_path w) =
      Inr (Some (report_header env pdf_path
                 @ ascii ''## '' @ [0x4E3B, 0x8981, 0x5185, 0x5BB9] @ ascii '' (''
                 @ [0x4F7F, 0x7528] @ ascii '' '' @ chosen @ ascii '')\<newline>\<newline>''
                 @ best_text @ ascii ''\<newline>\<newline>''
                 @ reference_part results chosen))"
    using extract_pdf_text_value [OF assms(1,2) sel assms(3)]
    by (simp add: main_section_def)
  ultimately show ?thesis
    using val by blast
qed

text \<open>
  On the sample run without PyMuPDF, PyPDF2 and PDFMiner succeed: PDFMiner is the
  main section and PyPDF2 the one reference section.
\<close>

theorem primary_is_priority_first_witness:
  "path_exists env_no_fitz sample_pdf
   \<and> fst (run_extractors env_no_fitz sample_pdf world0) =
        Inr [(PyPDF2, page_sections pypdf2_marker sample_texts),
             (PDFMiner, pdfminer_header @ ascii ''Hi Yo'' @ ascii ''\<newline>'')]
   \<and> first_present [(PyPDF2, page_sections pypdf2_marker sample_texts),
                     (PDFMiner, pdfminer_header @ ascii ''Hi Yo'' @ ascii ''\<newline>'')]
        = Some PDFMiner
   \<and> fst (extract_pdf_text env_no_fitz sample_pdf None world0) =
        Inr (Some (report_header env_no_fitz sample_pdf
                   @ ascii ''## '' @ [0x4E3B, 0x8981, 0x5185, 0x5BB9] @ ascii '' (''
                   @ [0x4F7F, 0x7528] @ ascii '' PDFMiner)\<newline>\<newline>''
                   @ pdfminer_header @ ascii ''Hi Yo'' @ ascii ''\<newline>''
                   @ ascii ''\<newline>\<newline>''
                   @ reference_header
                   @ reference_section PyPDF2 (page_sections pypdf2_marker sample_texts)))"
proof -
  let ?results = "[(PyPDF2, page_sections pypdf2_marker sample_texts),
                   (PDFMiner, pdfminer_header @ ascii ''Hi Yo'' @ ascii ''\<newline>'')]"
  have h1: "path_exists env_no_fitz sample_pdf"
    by (simp add: env_no_fitz_def sample_env_def)
  have h2: "fst (run_extractors env_no_fitz sample_pdf world0) = Inr ?results"
    by (rule env_no_fitz_run)
  have h3: "?results \<noteq> []"
    by simp
  have first: "first_present ?results = Some PDFMiner"
    by (simp add: first_present_def priority_order_def dict_in_def backend_names_distinct)
  have refs: "reference_part ?results PDFMiner =
      reference_header @ reference_section PyPDF2 (page_sections pypdf2_marker sample_texts)"
    by (simp add: reference_part_def backend_names_distinct)
  have name: "ascii '' '' @ PDFMiner @ ascii '')\<newline>\<newline>'' @ t = ascii '' PDFMiner)\<newline>\<newline>'' @ t" for t
    by (simp add: PDFMiner_def ascii_def)
  from primary_is_priority_first [OF h1 h2 h3, of None] first refs h1 h2
  show ?thesis
    by (auto simp: backend_names_distinct name)
qed

subsection \<open>C2: an error of a backend stays inside its extractor\<close>

text \<open>
  Claim C2, as the code has it. For every input path without a lone surrogate and
  every behaviour of the three libraries in which each error raised is reportable (an
  instance of \<open>Exception\<close> whose message \<open>str(e)\<close> returns and can be encoded for the
  console): when a call into a backend raises, the extractor of that backend returns
  \<open>None\<close> and the backend is no key of the results mapping; and no exception escapes
  the orchestrator, which returns \<open>None\<close> or a report.
\<close>

theorem backend_errors_contained:
  assumes "encodable pdf_path"
    and "contained (pypdf2_body env pdf_path)"
    and "contained (pdfminer_body env pdf_path)"
    and "contained (pymupdf_body env pdf_path)"
  shows "(pypdf2_raises env pdf_path \<longrightarrow> fst (extract_with_pypdf2 env pdf_path w1) = Inr None)
   \<and> (pdfminer_raises env pdf_path \<longrightarrow> fst (extract_with_pdfminer env pdf_path w2) = Inr None)
   \<and> (pymupdf_raises env pdf_path \<longrightarrow> fst (extract_with_pymupdf env pdf_path w3) = Inr None)
   \<and> (\<exists>results. fst (run_extractors env pdf_path w) = Inr results
         \<and> (pypdf2_raises env pdf_path \<longrightarrow> \<not> dict_in PyPDF2 results)
         \<and> (pdfminer_raises env pdf_path \<longrightarrow> \<not> dict_in PDFMiner results)
         \<and> (pymupdf_raises env pdf_path \<longrightarrow> \<not> dict_in PyMuPDF results))
   \<and> (\<exists>r. fst (extract_pdf_text env pdf_path output_path w) = Inr r)"
proof -
  have v1: "pypdf2_raises env pdf_path \<Longrightarrow> try_except PyPDF2 (pypdf2_body env pdf_path) = Inr None"
    using pypdf2_body_raises [of env pdf_path] try_except_contained [OF _ assms(2), of PyPDF2]
    by auto
  have v2: "pdfminer_raises env pdf_path \<Longrightarrow>
      try_except PDFMiner (pdfminer_body env pdf_path) = Inr None"
    using pdfminer_body_raises [of env pdf_path] try_except_contained [OF _ assms(3), of PDFMiner]
    by auto
  have v3: "pymupdf_raises env pdf_path \<Longrightarrow>
      try_except PyMuPDF (pymupdf_body env pdf_path) = Inr None"
    using pymupdf_body_raises [of env pdf_path] try_except_contained [OF _ assms(4), of PyMuPDF]
    by auto
  obtain r1 r2 r3 where r:
    "try_except PyPDF2 (pypdf2_body env pdf_path) = Inr r1"
    "try_except PDFMiner (pdfminer_body env pdf_path) = Inr r2"
    "try_except PyMuPDF (pymupdf_body env pdf_path) = Inr r3"
    using try_except_Inr_iff [of PyPDF2 "pypdf2_body env pdf_path"]
      try_except_Inr_iff [of PDFMiner "pdfminer_body env pdf_path"]
      try_except_Inr_iff [of PyMuPDF "pymupdf_body env pdf_path"] assms(2-4)
    by auto
  let ?results = "store_if_truthy (store_if_truthy (store_if_truthy [] PyPDF2 r1) PDFMiner r2)
                    PyMuPDF r3"
  have run: "fst (run_extractors env pdf_path w) = Inr ?results"
    using run_extractors_returns [OF assms(1) r, of w] by simp
  have in1: "pypdf2_raises env pdf_path \<Longrightarrow> \<not> dict_in PyPDF2 ?results"
    using v1 by (simp add: dict_in_results [OF run, of _ w w w] fst_extract_with_pypdf2
        backend_names_distinct)
  have in2: "pdfminer_raises env pdf_path \<Longrightarrow> \<not> dict_in PDFMiner ?results"
    using v2 by (simp add: dict_in_results [OF run, of _ w w w] fst_extract_with_pdfminer
        backend_names_distinct)
  have in3: "pymupdf_raises env pdf_path \<Longrightarrow> \<not> dict_in PyMuPDF ?results"
    using v3 by (simp add: dict_in_results [OF run, of _ w w w] fst_extract_with_pymupdf
        backend_names_distinct)
  have ret: "\<exists>r. fst (extract_pdf_text env pdf_path output_path w) = Inr r"
  proof (cases "path_exists env pdf_path")
    case False
    with assms(1) show ?thesis
      using print_missing_line [of pdf_path] by (simp add: extract_pdf_text_def)
  next
    case True
    show ?thesis
    proof (cases "?results = []")
      case True
      with run show ?thesis
        by (simp add: extract_pdf_text_no_results)
    next
      case False
      then obtain best_text chosen where "select_best ?results = Inr (best_text, chosen)"
        using select_best_total [OF results_keys [OF run]] by blast
      from extract_pdf_text_value [OF True run this False] show ?thesis
        by simp
    qed
  qed
  from v1 v2 v3 run in1 in2 in3 ret show ?thesis
    by (simp add: fst_extract_with_pypdf2 fst_extract_with_pdfminer fst_extract_with_pymupdf)
qed

text \<open>
  The claim as the specification words it speaks of every path and of an arbitrary
  exception. When PDFMiner raises an error whose \<open>__str__\<close> raises, the print of
  the handler of line 44 raises: the exception leaves \<open>extract_with_pdfminer\<close> and
  the orchestrator. When PyMuPDF raises \<open>SystemExit\<close>, the clause of line 66 does
  not catch it.
\<close>

theorem backend_errors_contained_counterexample:
  "pdfminer_raises env_str_raises sample_pdf
   \<and> fst (extract_with_pdfminer env_str_raises sample_pdf world0)
       = Inl (Error (ascii ''__str__ failed''))
   \<and> fst (extract_pdf_text env_str_raises sample_pdf None world0)
       = Inl (Error (ascii ''__str__ failed''))
   \<and> pymupdf_raises env_exit sample_pdf
   \<and> fst (extract_with_pymupdf env_exit sample_pdf world0) = Inl (Signal (ascii ''SystemExit''))
   \<and> fst (extract_pdf_text env_exit sample_pdf None world0) = Inl (Signal (ascii ''SystemExit''))"
proof -
  have "pdfminer_raises env_str_raises sample_pdf"
    by (simp add: pdfminer_raises_def env_str_raises_def)
  moreover have "fst (extract_with_pdfminer env_str_raises sample_pdf world0)
       = Inl (Error (ascii ''__str__ failed''))"
    by (simp add: fst_extract_with_pdfminer try_except_def except_Exception_def
        pdfminer_body_def env_str_raises_def)
  moreover have "path_exists env_str_raises sample_pdf" "path_exists env_exit sample_pdf"
    by (simp_all add: env_str_raises_def env_exit_def sample_env_def)
  moreover have "pymupdf_raises env_exit sample_pdf"
    by (simp add: pymupdf_raises_def env_exit_def)
  moreover have "fst (extract_with_pymupdf env_exit sample_pdf world0)
       = Inl (Signal (ascii ''SystemExit''))"
    by (simp add: fst_extract_with_pymupdf try_except_def except_Exception_def
        pymupdf_body_def env_exit_def)
  ultimately show ?thesis
    using extract_pdf_text_raises [of env_str_raises sample_pdf world0 _ None]
      extract_pdf_text_raises [of env_exit sample_pdf world0 _ None]
    by (simp add: env_str_raises_run env_exit_run)
qed

text \<open>
  On the sample run in which every backend raises a reportable error (PyPDF2 after a
  first page with text, PyMuPDF only when closing), every extractor returns \<open>None\<close>,
  the mapping has none of the three keys and the orchestrator returns \<open>None\<close>.
\<close>

theorem backend_errors_contained_witness:
  "encodable sample_pdf
   \<and> contained (pypdf2_body env_all_raise sample_pdf)
   \<and> contained (pdfminer_body env_all_raise sample_pdf)
   \<and> contained (pymupdf_body env_all_raise sample_pdf)
   \<and> pypdf2_raises env_all_raise sample_pdf
   \<and> pdfminer_raises env_all_raise sample_pdf
   \<and> pymupdf_raises env_all_raise sample_pdf
   \<and> fst (extract_with_pypdf2 env_all_raise sample_pdf world0) = Inr None
   \<and> fst (extract_with_pdfminer env_all_raise sample_pdf world0) = Inr None
   \<and> fst (extract_with_pymupdf env_all_raise sample_pdf world0) = Inr None
   \<and> fst (run_extractors env_all_raise sample_pdf world0) = Inr []
   \<and> fst (extract_pdf_text env_all_raise sample_pdf (Some sample_out) world0) = Inr None"
proof -
  have h1: "encodable sample_pdf"
    by simp
  have h2: "contained (pypdf2_body env_all_raise sample_pdf)"
    and h3: "contained (pdfminer_body env_all_raise sample_pdf)"
    and h4: "contained (pymupdf_body env_all_raise sample_pdf)"
    by (simp_all add: contained_def env_all_raise_bodies)
  note c = backend_errors_contained [OF h1 h2 h3 h4, of world0 world0 world0 world0
      "Some sample_out"]
  have none: "fst (extract_with_pypdf2 env_all_raise sample_pdf world0) = Inr None"
    "fst (extract_with_pdfminer env_all_raise sample_pdf world0) = Inr None"
    "fst (extract_with_pymupdf env_all_raise sample_pdf world0) = Inr None"
    using c by (simp_all add: env_all_raise_raises)
  then have run: "fst (run_extractors env_all_raise sample_pdf world0) = Inr []"
    using run_extractors_returns [of sample_pdf env_all_raise None None None world0]
    by (simp add: fst_extract_with_pypdf2 fst_extract_with_pdfminer fst_extract_with_pymupdf)
  then have "fst (extract_pdf_text env_all_raise sample_pdf (Some sample_out) world0) = Inr None"
    by (rule extract_pdf_text_no_results)
  with h1 h2 h3 h4 none run show ?thesis
    by (simp add: env_all_raise_raises)
qed

subsection \<open>C3: a missing input file\<close>

text \<open>
  Claim C3, as the code has it. For every input path that does not reference an
  existing file, the orchestrator leaves the world as it was: no extractor has been
  invoked and nothing has been written; and when the path holds no lone surrogate, so
  that the diagnostic of line 73 can be printed, the orchestrator returns \<open>None\<close>.
\<close>

theorem missing_input_fails_fast:
  "\<not> path_exists env pdf_path \<Longrightarrow>
   snd (extract_pdf_text env pdf_path output_path w) = w
   \<and> (encodable pdf_path \<longrightarrow> fst (extract_pdf_text env pdf_path output_path w) = Inr None)"
  using print_missing_line [of pdf_path]
  by (cases "py_print (missing_line pdf_path)") (simp_all add: extract_pdf_text_def)

text \<open>
  The claim as the specification words it speaks of every missing path. For a missing
  path with a lone surrogate the print of line 73 raises, and the orchestrator does
  not return \<open>None\<close>.
\<close>

theorem missing_input_fails_fast_counterexample:
  "\<not> path_exists sample_env surrogate_pdf
   \<and> fst (extract_pdf_text sample_env surrogate_pdf None world0)
       = Inl (UnicodeEncodeError (missing_line surrogate_pdf))"
proof -
  have "\<not> path_exists sample_env surrogate_pdf"
    by (simp add: sample_env_def sample_pdf_def surrogate_pdf_def ascii_def)
  moreover have "py_print (missing_line surrogate_pdf)
      = Some (UnicodeEncodeError (missing_line surrogate_pdf))"
    by (simp add: py_print_def missing_line_def)
  ultimately show ?thesis
    by (simp add: extract_pdf_text_def)
qed

theorem missing_input_fails_fast_witness:
  "\<not> path_exists sample_env (ascii ''missing.pdf'')
   \<and> encodable (ascii ''missing.pdf'')
   \<and> extract_pdf_text sample_env (ascii ''missing.pdf'') (Some sample_out) world0
       = (Inr None, world0)
   \<and> invoked world0 = []"
proof -
  have h: "\<not> path_exists sample_env (ascii ''missing.pdf'')"
    by (simp add: sample_env_def sample_pdf_def ascii_def)
  from missing_input_fails_fast [OF h, of "Some sample_out" world0] h show ?thesis
    by (cases "extract_pdf_text sample_env (ascii ''missing.pdf'') (Some sample_out) world0")
      (simp add: world0_def)
qed

subsection \<open>C4: all backends failed\<close>

text \<open>
  Claim C4. In every run in which each of the three extractors returns a failure or
  empty result (\<open>None\<close> or the empty string), the orchestrator returns \<open>None\<close> and
  the files on disk are what they were, also when an output path was supplied. A run
  in which the extractors return has printed its start with the path (line 76), so
  the path holds no lone surrogate.
\<close>

theorem all_backends_failed:
  assumes "fst (extract_with_pypdf2 env pdf_path w1) = Inr None
           \<or> fst (extract_with_pypdf2 env pdf_path w1) = Inr (Some [])"
    and "fst (extract_with_pdfminer env pdf_path w2) = Inr None
         \<or> fst (extract_with_pdfminer env pdf_path w2) = Inr (Some [])"
    and "fst (extract_with_pymupdf env pdf_path w3) = Inr None
         \<or> fst (extract_with_pymupdf env pdf_path w3) = Inr (Some [])"
    and "encodable pdf_path"
  shows "fst (extract_pdf_text env pdf_path output_path w) = Inr None
         \<and> disk (snd (extract_pdf_text env pdf_path output_path w)) = disk w"
proof -
  from assms(1-3) obtain r1 r2 r3 where
    r: "try_except PyPDF2 (pypdf2_body env pdf_path) = Inr r1"
    "try_except PDFMiner (pdfminer_body env pdf_path) = Inr r2"
    "try_except PyMuPDF (pymupdf_body env pdf_path) = Inr r3"
    and falsy: "r1 = None \<or> r1 = Some []" "r2 = None \<or> r2 = Some []" "r3 = None \<or> r3 = Some []"
    unfolding fst_extract_with_pypdf2 fst_extract_with_pdfminer fst_extract_with_pymupdf
    by auto
  from falsy have "store_if_truthy (store_if_truthy (store_if_truthy [] PyPDF2 r1) PDFMiner r2)
                     PyMuPDF r3 = []"
    by (simp add: store_if_truthy_false)
  with run_extractors_returns [OF assms(4) r, of w]
  have run: "fst (run_extractors env pdf_path w) = Inr []"
    by simp
  then have "fst (extract_pdf_text env pdf_path output_path w) = Inr None"
    by (rule extract_pdf_text_no_results)
  moreover have "disk (snd (extract_pdf_text env pdf_path output_path w)) = disk w"
  proof (cases "path_exists env pdf_path")
    case True
    with run disk_run_extractors [of env pdf_path w] show ?thesis
      by (cases "run_extractors env pdf_path w") (simp add: extract_pdf_text_def)
  next
    case False
    then show ?thesis
      by (simp add: extract_pdf_text_def split: option.splits)
  qed
  ultimately show ?thesis ..
qed

text \<open>
  On the scanned sample document PyPDF2 returns the empty string and the two others
  \<open>None\<close>; the input exists, an output path is supplied and a write would succeed.
\<close>

theorem all_backends_failed_witness:
  "fst (extract_with_pypdf2 env_scanned sample_pdf world0) = Inr (Some [])
   \<and> fst (extract_with_pdfminer env_scanned sample_pdf world0) = Inr None
   \<and> fst (extract_with_pymupdf env_scanned sample_pdf world0) = Inr None
   \<and> encodable sample_pdf
   \<and> path_exists env_scanned sample_pdf
   \<and> write_text env_scanned sample_out [] = Written
   \<and> fst (extract_pdf_text env_scanned sample_pdf (Some sample_out) world0) = Inr None
   \<and> disk (snd (extract_pdf_text env_scanned sample_pdf (Some sample_out) world0)) = disk world0"
proof -
  have h1: "fst (extract_with_pypdf2 env_scanned sample_pdf world0) = Inr None
            \<or> fst (extract_with_pypdf2 env_scanned sample_pdf world0) = Inr (Some [])"
    by (simp add: env_scanned_values)
  have h2: "fst (extract_with_pdfminer env_scanned sample_pdf world0) = Inr None
            \<or> fst (extract_with_pdfminer env_scanned sample_pdf world0) = Inr (Some [])"
    by (simp add: env_scanned_values)
  have h3: "fst (extract_with_pymupdf env_scanned sample_pdf world0) = Inr None
            \<or> fst (extract_with_pymupdf env_scanned sample_pdf world0) = Inr (Some [])"
    by (simp add: env_scanned_values)
  have h4: "encodable sample_pdf"
    by simp
  have "path_exists env_scanned sample_pdf" "write_text env_scanned sample_out [] = Written"
    by (simp_all add: env_scanned_def env_no_fitz_def sample_env_def)
  with all_backends_failed [OF h1 h2 h3 h4, of "Some sample_out" world0] show ?thesis
    by (simp add: env_scanned_values)
qed

subsection \<open>C5: what an extractor returns\<close>




subsection \<open>C6: every extractor is invoked, in the order of the source\<close>




subsection \<open>C7: pages without text are skipped\<close>

text \<open>
  Claim C7. In both page loops a page whose text is empty or whitespace-only leaves
  the accumulated text as it is: no marker and no text is appended for it. When no
  call raises, the value of \<open>extract_with_pypdf2\<close> and of \<open>extract_with_pymupdf\<close> is
  made of the sections of the pages with non-whitespace content and of nothing else,
  each page keeping the number of its position in the document.
\<close>

theorem blank_pages_skipped:
  "(whitespace_only page_text \<longrightarrow>
      pypdf2_loop n (Inr page_text # pages) acc = pypdf2_loop (Suc n) pages acc
      \<and> pymupdf_loop n (Inr page_text # pages) acc = pymupdf_loop (Suc n) pages acc)
   \<and> (pypdf2_pages env pdf_path = Inr (map Inr texts) \<longrightarrow>
        fst (extract_with_pypdf2 env pdf_path w) = Inr (Some (page_sections pypdf2_marker texts)))
   \<and> (fitz_open env pdf_path = Inr doc \<and> doc_pages doc = map Inr texts \<and> doc_close doc = None \<longrightarrow>
        fst (extract_with_pymupdf env pdf_path w) = Inr (Some (page_sections pymupdf_marker texts)))"
  by (simp add: whitespace_only_strip fst_extract_with_pypdf2 fst_extract_with_pymupdf
      pypdf2_body_pages pymupdf_body_pages)

text \<open>
  On the sample document the second page is whitespace: the output has the markers
  of pages 1 and 3 only.
\<close>

theorem blank_pages_skipped_witness:
  "whitespace_only [0x3000, 0x20]
   \<and> pypdf2_loop 2 [Inr [0x3000, 0x20], Inr (ascii ''Yo'')] (ascii ''Hi'')
       = pypdf2_loop 3 [Inr (ascii ''Yo'')] (ascii ''Hi'')
   \<and> pymupdf_loop 2 [Inr [0x3000, 0x20], Inr (ascii ''Yo'')] (ascii ''Hi'')
       = pymupdf_loop 3 [Inr (ascii ''Yo'')] (ascii ''Hi'')
   \<and> pypdf2_pages sample_env sample_pdf = Inr (map Inr sample_texts)
   \<and> fst (extract_with_pypdf2 sample_env sample_pdf world0)
       = Inr (Some (pypdf2_marker 1 @ ascii ''Hi'' @ ascii ''\<newline>''
                    @ pypdf2_marker 3 @ ascii ''Yo'' @ ascii ''\<newline>''))
   \<and> fitz_open sample_env sample_pdf = Inr \<lparr>doc_pages = map Inr sample_texts, doc_close = None\<rparr>
   \<and> fst (extract_with_pymupdf sample_env sample_pdf world0)
       = Inr (Some (pymupdf_marker 1 @ ascii ''Hi'' @ ascii ''\<newline>''
                    @ pymupdf_marker 3 @ ascii ''Yo'' @ ascii ''\<newline>''))"
proof -
  have h1: "whitespace_only [0x3000, 0x20]"
    by (simp add: whitespace_only_def py_isspace_def)
  have h2: "pypdf2_pages sample_env sample_pdf = Inr (map Inr sample_texts)"
    by (simp add: sample_env_def)
  have h3: "fitz_open sample_env sample_pdf = Inr \<lparr>doc_pages = map Inr sample_texts, doc_close = None\<rparr>"
    by (simp add: sample_env_def)
  from blank_pages_skipped [where page_text = "[0x3000, 0x20]" and n = 2
      and pages = "[Inr (ascii ''Yo'')]" and acc = "ascii ''Hi''" and env = sample_env
      and pdf_path = sample_pdf and texts = sample_texts and w = world0
      and doc = "\<lparr>doc_pages = map Inr sample_texts, doc_close = None\<rparr>"] h1 h2 h3
  show ?thesis
    by (simp add: sample_sections numeral_3_eq_3 numeral_2_eq_2)
qed

subsection \<open>C8: a single successful backend\<close>



subsection \<open>C9: a failing write\<close>

text \<open>
  Claim C9. In every run in which at least one backend succeeded and an output path
  was supplied, the orchestrator returns one and the same report whatever the write
  does: a write that raises changes neither the returned text nor the fact that the
  orchestrator returns.
\<close>

theorem write_failure_keeps_return_value:
  assumes "path_exists env pdf_path"
    and "fst (run_extractors env pdf_path w) = Inr results"
    and "results \<noteq> []"
    and "out \<noteq> []"
  shows "\<exists>combined_text. \<forall>wr.
           fst (extract_pdf_text (env\<lparr>write_text := wr\<rparr>) pdf_path (Some out) w)
             = Inr (Some combined_text)"
proof -
  obtain best_text chosen where sel: "select_best results = Inr (best_text, chosen)"
    using select_best_total [OF results_keys [OF assms(2)] assms(3)] by blast
  have "fst (extract_pdf_text (env\<lparr>write_text := wr\<rparr>) pdf_path (Some out) w) =
          Inr (Some (report_header env pdf_path @ main_section chosen best_text
                       @ reference_part results chosen))" for wr
    using extract_pdf_text_value
      [of "env\<lparr>write_text := wr\<rparr>" pdf_path w results best_text chosen "Some out"]
      assms sel
    by (simp add: run_extractors_write_text report_header_def)
  then show ?thesis by blast
qed

text \<open>
  On the sample run the report is the same when the open raises and when the text is
  written; only the disk differs.
\<close>

theorem write_failure_keeps_return_value_witness:
  "path_exists sample_env sample_pdf
   \<and> (\<exists>results. fst (run_extractors sample_env sample_pdf world0) = Inr results \<and> results \<noteq> [])
   \<and> sample_out \<noteq> []
   \<and> fst (extract_pdf_text
            (sample_env\<lparr>write_text := \<lambda>out t. OpenRaises (ascii ''Permission denied'')\<rparr>)
            sample_pdf (Some sample_out) world0)
     = fst (extract_pdf_text (sample_env\<lparr>write_text := \<lambda>out t. Written\<rparr>)
            sample_pdf (Some sample_out) world0)
   \<and> (\<exists>combined_text.
         fst (extract_pdf_text (sample_env\<lparr>write_text := \<lambda>out t. Written\<rparr>)
            sample_pdf (Some sample_out) world0) = Inr (Some combined_text))
   \<and> disk (snd (extract_pdf_text
            (sample_env\<lparr>write_text := \<lambda>out t. OpenRaises (ascii ''Permission denied'')\<rparr>)
            sample_pdf (Some sample_out) world0)) sample_out = None
   \<and> disk (snd (extract_pdf_text (sample_env\<lparr>write_text := \<lambda>out t. Written\<rparr>)
            sample_pdf (Some sample_out) world0)) sample_out \<noteq> None"
proof -
  obtain results where run: "fst (run_extractors sample_env sample_pdf world0) = Inr results"
    and h3: "results \<noteq> []"
    by (simp add: sample_env_run)
  have h1: "path_exists sample_env sample_pdf"
    by (simp add: sample_env_def)
  have h4: "sample_out \<noteq> []"
    by (simp add: sample_out_def)
  from write_failure_keeps_return_value [OF h1 run h3 h4] obtain combined_text where
    same: "\<forall>wr. fst (extract_pdf_text (sample_env\<lparr>write_text := wr\<rparr>) sample_pdf
                      (Some sample_out) world0) = Inr (Some combined_text)"
    by blast
  obtain best_text chosen where sel: "select_best results = Inr (best_text, chosen)"
    using select_best_total [OF results_keys [OF run] h3] by blast
  have final: "disk (snd (extract_pdf_text (sample_env\<lparr>write_text := wr\<rparr>) sample_pdf
                      (Some sample_out) world0)) =
             disk (snd (save_result (sample_env\<lparr>write_text := wr\<rparr>) (Some sample_out)
                     (report_header (sample_env\<lparr>write_text := wr\<rparr>) sample_pdf
                        @ main_section chosen best_text @ reference_part results chosen)
                     (snd (run_extractors sample_env sample_pdf world0))))" for wr
    using extract_pdf_text_value
      [of "sample_env\<lparr>write_text := wr\<rparr>" sample_pdf world0 results best_text chosen
        "Some sample_out"] h1 run h3 sel
    by (simp add: run_extractors_write_text)
  have "disk (snd (extract_pdf_text
            (sample_env\<lparr>write_text := \<lambda>out t. OpenRaises (ascii ''Permission denied'')\<rparr>)
            sample_pdf (Some sample_out) world0)) sample_out = None"
    unfolding final by (simp add: save_result_def h4 disk_run_extractors world0_def)
  moreover have "disk (snd (extract_pdf_text (sample_env\<lparr>write_text := \<lambda>out t. Written\<rparr>)
            sample_pdf (Some sample_out) world0)) sample_out \<noteq> None"
    unfolding final by (simp add: save_result_def h4 split: option.splits)
  ultimately show ?thesis
    using same h1 run h3 h4 by simp
qed

subsection \<open>C10: the selection of the main backend never raises\<close>

text \<open>
  Claim C10. Whenever the results mapping of a run is non-empty, its keys are among
  the three backend names; so when neither PyMuPDF nor PDFMiner is a key, PyPDF2 is
  one, and the selection of the main backend returns without a lookup error.
\<close>

theorem primary_selection_total:
  assumes "fst (run_extractors env pdf_path w) = Inr results" and "results \<noteq> []"
  shows "fst ` set results \<subseteq> {PyPDF2, PDFMiner, PyMuPDF}
     \<and> (\<not> dict_in PyMuPDF results \<and> \<not> dict_in PDFMiner results \<longrightarrow> dict_in PyPDF2 results)
     \<and> (\<exists>best_text method. select_best results = Inr (best_text, method))"
proof -
  have keys: "fst ` set results \<subseteq> {PyPDF2, PDFMiner, PyMuPDF}"
    using results_keys [OF assms(1)] .
  from assms(2) obtain k where k: "k \<in> fst ` set results"
    by (cases results) auto
  with keys have "k = PyPDF2 \<or> k = PDFMiner \<or> k = PyMuPDF"
    by blast
  moreover from k have "dict_in k results"
    by (simp add: dict_in_def map_of_eq_None_iff)
  ultimately have "dict_in PyPDF2 results \<or> dict_in PDFMiner results \<or> dict_in PyMuPDF results"
    by blast
  moreover have "\<exists>best_text chosen. select_best results = Inr (best_text, chosen)"
    using select_best_total [OF keys assms(2)] by blast
  ultimately show ?thesis using keys by blast
qed

text \<open>
  On the sample run in which only PyPDF2 succeeds the last branch of the selection
  is taken, and its subscript finds the key.
\<close>

theorem primary_selection_total_witness:
  "fst (run_extractors env_only_pypdf2 sample_pdf world0)
       = Inr [(PyPDF2, page_sections pypdf2_marker sample_texts)]
   \<and> [(PyPDF2, page_sections pypdf2_marker sample_texts)] \<noteq> []
   \<and> \<not> dict_in PyMuPDF [(PyPDF2, page_sections pypdf2_marker sample_texts)]
   \<and> \<not> dict_in PDFMiner [(PyPDF2, page_sections pypdf2_marker sample_texts)]
   \<and> dict_in PyPDF2 [(PyPDF2, page_sections pypdf2_marker sample_texts)]
   \<and> select_best [(PyPDF2, page_sections pypdf2_marker sample_texts)]
       = Inr (page_sections pypdf2_marker sample_texts, PyPDF2)"
proof -
  have h1: "fst (run_extractors env_only_pypdf2 sample_pdf world0)
             = Inr [(PyPDF2, page_sections pypdf2_marker sample_texts)]"
    by (rule env_only_pypdf2_run)
  have h2: "[(PyPDF2, page_sections pypdf2_marker sample_texts)] \<noteq> []"
    by simp
  have h3: "\<not> dict_in PyMuPDF [(PyPDF2, page_sections pypdf2_marker sample_texts)]
            \<and> \<not> dict_in PDFMiner [(PyPDF2, page_sections pypdf2_marker sample_texts)]"
    by (simp add: dict_in_def backend_names_distinct)
  from primary_selection_total [OF h1 h2] h1 h3 show ?thesis
    by (auto simp: select_best_def dict_get_def)
qed

end
